theory Spec2Isabelle
  imports Complex_Main "HOL-Library.AList"
begin

section \<open>Values and exceptions of the Python program\<close>

text \<open>
  The program of \<^verbatim>\<open>src/red_lines.py\<close> reads a GeoJSON file, keeps a list of
  district objects and mutates them in place. What \<^verbatim>\<open>json.load\<close> returns is a Python
  value built from \<^verbatim>\<open>None\<close>, booleans, numbers, strings, lists and dicts; the
  program never checks its shape before it subscripts it, so the model keeps the whole
  value. A dict is an association list whose keys are distinct (Python keeps the
  insertion order); numbers are carried around and never computed with by the code of
  the repository.
\<close>

datatype json =
    JNull
  | JBool bool
  | JNum real
  | JStr string
  | JArr "json list"
  | JObj "(string \<times> json) list"

text \<open>The exceptions the modelled statements can raise.\<close>

datatype error =
    FileNotFoundError
  | JSONDecodeError
  | KeyError
  | IndexError
  | TypeError
  | ValueError

text \<open>Sequencing of two fallible computations: the first exception propagates.\<close>

definition bind_err :: "error + 'a \<Rightarrow> ('a \<Rightarrow> error + 'b) \<Rightarrow> error + 'b" where
  "bind_err m f = (case m of Inl e \<Rightarrow> Inl e | Inr x \<Rightarrow> f x)"

text \<open>
  \<^verbatim>\<open>obj[key]\<close> for a string key: only a dict can be subscripted by a string
  (\<^verbatim>\<open>KeyError\<close> when the key is missing); a list or a string raises
  \<^verbatim>\<open>TypeError\<close> (indices must be integers), and \<^verbatim>\<open>None\<close>, a boolean or a
  number is not subscriptable at all.
\<close>

fun getitem :: "json \<Rightarrow> string \<Rightarrow> error + json" where
  "getitem (JObj kvs) key = (case map_of kvs key of None \<Rightarrow> Inl KeyError | Some v \<Rightarrow> Inr v)"
| "getitem (JArr xs) key = Inl TypeError"
| "getitem (JStr s) key = Inl TypeError"
| "getitem (JNum n) key = Inl TypeError"
| "getitem (JBool b) key = Inl TypeError"
| "getitem JNull key = Inl TypeError"

text \<open>
  \<^verbatim>\<open>obj[0]\<close>: the first element of a list or the first character of a string
  (\<^verbatim>\<open>IndexError\<close> when empty); a dict read from JSON has string keys only, so the
  key \<^verbatim>\<open>0\<close> is missing.
\<close>

fun getitem0 :: "json \<Rightarrow> error + json" where
  "getitem0 (JArr []) = Inl IndexError"
| "getitem0 (JArr (x # xs)) = Inr x"
| "getitem0 (JStr []) = Inl IndexError"
| "getitem0 (JStr (c # s)) = Inr (JStr [c])"
| "getitem0 (JObj kvs) = Inl KeyError"
| "getitem0 (JNum n) = Inl TypeError"
| "getitem0 (JBool b) = Inl TypeError"
| "getitem0 JNull = Inl TypeError"

text \<open>
  \<^verbatim>\<open>for x in obj\<close>: a list yields its elements, a dict its keys, a string its
  characters; anything else is not iterable.
\<close>

fun py_iter :: "json \<Rightarrow> error + json list" where
  "py_iter (JArr xs) = Inr xs"
| "py_iter (JObj kvs) = Inr (map (\<lambda>kv. JStr (fst kv)) kvs)"
| "py_iter (JStr s) = Inr (map (\<lambda>c. JStr [c]) s)"
| "py_iter (JNum n) = Inl TypeError"
| "py_iter (JBool b) = Inl TypeError"
| "py_iter JNull = Inl TypeError"

text \<open>Lists and dicts are unhashable: using one as a dict key raises \<^verbatim>\<open>TypeError\<close>.\<close>

fun hashable :: "json \<Rightarrow> bool" where
  "hashable (JArr xs) = False"
| "hashable (JObj kvs) = False"
| "hashable (JStr s) = True"
| "hashable (JNum n) = True"
| "hashable (JBool b) = True"
| "hashable JNull = True"

section \<open>DetroitDistrict\<close>

text \<open>
  One object of class \<^verbatim>\<open>DetroitDistrict\<close>. The four fields read from the file hold
  whatever JSON value was there; the optional fields are \<^verbatim>\<open>None\<close> until an
  enrichment step sets them. The field \<^verbatim>\<open>id\<close> is \<open>id'\<close> here.
\<close>

record DetroitDistrict =
  coordinates :: json
  holcGrade :: json
  id' :: json
  description :: json
  randomLat :: "real option"
  randomLong :: "real option"
  medIncome :: "int option"
  censusTract :: "string option"
  holcColor :: string

text \<open>
  \<^verbatim>\<open>color_map.get(holcGrade, 'grey')\<close> over the dict literal of the constructor:
  hashing the key comes first, then the lookup with its default.
\<close>

definition color_map :: "(string \<times> string) list" where
  "color_map = [(''A'', ''darkgreen''), (''B'', ''cornflowerblue''), (''C'', ''gold''),
     (''D'', ''maroon'')]"

definition color_map_get :: "json \<Rightarrow> string \<Rightarrow> error + string" where
  "color_map_get key dflt =
     (if hashable key then
        (case key of
           JStr g \<Rightarrow> (case map_of color_map g of Some c \<Rightarrow> Inr c | None \<Rightarrow> Inr dflt)
         | _ \<Rightarrow> Inr dflt)
      else Inl TypeError)"

text \<open>
  \<^verbatim>\<open>DetroitDistrict.__init__\<close>. \<^verbatim>\<open>holcColor if holcColor else ...\<close> takes the
  argument when it is truthy: \<^verbatim>\<open>None\<close> and the empty string are not.
\<close>

definition DetroitDistrict_init ::
  "json \<Rightarrow> json \<Rightarrow> json \<Rightarrow> json \<Rightarrow> string option \<Rightarrow> real option \<Rightarrow> real option \<Rightarrow>
   int option \<Rightarrow> string option \<Rightarrow> error + DetroitDistrict" where
  "DetroitDistrict_init coordinates_arg holcGrade_arg id_arg description_arg holcColor_arg
     randomLat_arg randomLong_arg medIncome_arg censusTract_arg =
     bind_err
       (case holcColor_arg of
          Some c \<Rightarrow> if c \<noteq> [] then Inr c else color_map_get holcGrade_arg ''grey''
        | None \<Rightarrow> color_map_get holcGrade_arg ''grey'')
       (\<lambda>color. Inr \<lparr>coordinates = coordinates_arg, holcGrade = holcGrade_arg,
          id' = id_arg, description = description_arg, randomLat = randomLat_arg,
          randomLong = randomLong_arg, medIncome = medIncome_arg,
          censusTract = censusTract_arg, holcColor = color\<rparr>)"

section \<open>RedLines: the catalog and its loader\<close>

record RedLines =
  districts :: "DetroitDistrict list"

text \<open>\<^verbatim>\<open>RedLines.__init__\<close>: the catalog starts with no districts.\<close>

definition RedLines_init :: RedLines where
  "RedLines_init = \<lparr>districts = []\<rparr>"

text \<open>
  A method mutates the catalog in place and may raise after some of its mutations. Its
  result is therefore a pair: \<open>None\<close> (it returned) or \<open>Some e\<close> (it raised
  \<open>e\<close>), and the state it left behind.

  The file system is a map from file names to contents; \<^verbatim>\<open>open\<close> raises
  \<^verbatim>\<open>FileNotFoundError\<close> for a name it does not hold. The parser of
  \<^verbatim>\<open>json.load\<close> is the library's and is a parameter \<open>json_load\<close>: \<open>None\<close>
  when the text is not valid JSON.
\<close>

definition open_read :: "(string \<Rightarrow> string option) \<Rightarrow> string \<Rightarrow> error + string" where
  "open_read fs fileName =
     (case fs fileName of None \<Rightarrow> Inl FileNotFoundError | Some txt \<Rightarrow> Inr txt)"

text \<open>
  The body of the loop of \<^verbatim>\<open>createDistricts\<close> up to the constructor call, in the
  order Python evaluates it: \<^verbatim>\<open>properties\<close>, then the geometry subscripts, then the
  constructor's arguments from left to right.
\<close>

definition district_of_feature :: "json \<Rightarrow> error + DetroitDistrict" where
  "district_of_feature district_data =
     bind_err (getitem district_data ''properties'') (\<lambda>properties.
     bind_err (getitem district_data ''geometry'') (\<lambda>geometry.
     bind_err (getitem geometry ''coordinates'') (\<lambda>all_coordinates.
     bind_err (getitem0 all_coordinates) (\<lambda>coordinates0.
     bind_err (getitem0 coordinates0) (\<lambda>ring.
     bind_err (getitem properties ''holc_grade'') (\<lambda>grade.
     bind_err (getitem properties ''holc_id'') (\<lambda>holc_id.
     bind_err (getitem properties ''area_description_data'') (\<lambda>area_description_data.
     bind_err (getitem area_description_data ''8'') (\<lambda>description8.
       DetroitDistrict_init ring grade holc_id description8 None None None None None)))))))))"

text \<open>
  The loop: each district is appended to \<^verbatim>\<open>self.districts\<close> as soon as it is built,
  so an exception leaves the earlier appends in place.
\<close>

fun createDistricts_loop ::
  "DetroitDistrict list \<Rightarrow> json list \<Rightarrow> error option \<times> DetroitDistrict list" where
  "createDistricts_loop ds [] = (None, ds)"
| "createDistricts_loop ds (district_data # rest) =
     (case district_of_feature district_data of
        Inl e \<Rightarrow> (Some e, ds)
      | Inr district \<Rightarrow> createDistricts_loop (ds @ [district]) rest)"

definition createDistricts ::
  "(string \<Rightarrow> string option) \<Rightarrow> (string \<Rightarrow> json option) \<Rightarrow> RedLines \<Rightarrow> string \<Rightarrow>
   error option \<times> RedLines" where
  "createDistricts fs json_load self fileName =
     (case open_read fs fileName of
        Inl e \<Rightarrow> (Some e, self)
      | Inr txt \<Rightarrow>
          (case json_load txt of
             None \<Rightarrow> (Some JSONDecodeError, self)
           | Some data \<Rightarrow>
               (case bind_err (getitem data ''features'') py_iter of
                  Inl e \<Rightarrow> (Some e, self)
                | Inr features \<Rightarrow>
                    (case createDistricts_loop (districts self) features of
                       (e, ds) \<Rightarrow> (e, self\<lparr>districts := ds\<rparr>)))))"

text \<open>
  A feature lacks a required property key when it is an object whose
  \<^verbatim>\<open>properties\<close> is an object without that key.
\<close>

definition required_keys :: "string list" where
  "required_keys = [''holc_grade'', ''holc_id'', ''area_description_data'']"

definition lacks_property :: "json \<Rightarrow> string \<Rightarrow> bool" where
  "lacks_property feature key =
     (case feature of
        JObj kvs \<Rightarrow>
          (case map_of kvs ''properties'' of
             Some (JObj props) \<Rightarrow> map_of props key = None
           | _ \<Rightarrow> False)
      | _ \<Rightarrow> False)"

text \<open>
  The description is the entry \<^verbatim>\<open>'8'\<close> of the object under
  \<^verbatim>\<open>area_description_data\<close>; a feature lacks it when that object has no such key.
\<close>

definition lacks_description8 :: "json \<Rightarrow> bool" where
  "lacks_description8 feature =
     (case getitem feature ''properties'' of
        Inr props \<Rightarrow>
          (case getitem props ''area_description_data'' of
             Inr (JObj area) \<Rightarrow> map_of area ''8'' = None
           | _ \<Rightarrow> False)
      | Inl e \<Rightarrow> False)"

section \<open>The sampler\<close>

text \<open>
  A grid point is a row \<^verbatim>\<open>[x, y]\<close> of the array \<^verbatim>\<open>points\<close>. The grid itself
  comes out of \<^verbatim>\<open>np.arange\<close> in floating point and is a parameter \<open>points\<close>.
  Three library functions are parameters as well:
  \<^item> \<open>Path\<close>, matplotlib's constructor together with the point test of the path it
    builds: it raises on vertices it cannot read as an N by 2 array of numbers, and
    otherwise gives the test that \<^verbatim>\<open>contains_points\<close> applies to every point;
  \<^item> \<open>randbelow\<close>, the draw of the global generator of module \<^verbatim>\<open>random\<close>: from a
    generator state and a bound it gives an index and the next state;
  \<^item> \<open>seed\<close>, the state \<^verbatim>\<open>random.seed\<close> puts the generator in.
  The \<^verbatim>\<open>print\<close> of the sampler is not modelled.
\<close>

type_synonym point = "real \<times> real"

text \<open>The guard of line 183 on \<^verbatim>\<open>district.coordinates\<close>.\<close>

definition coordinates_ok :: "json \<Rightarrow> bool" where
  "coordinates_ok c =
     (case c of
        JArr coords \<Rightarrow>
          list_all (\<lambda>coord. case coord of JArr xs \<Rightarrow> length xs = 2 | _ \<Rightarrow> False) coords
      | _ \<Rightarrow> False)"

text \<open>\<^verbatim>\<open>polygon_path.contains_points(points)\<close>: one boolean per point.\<close>

definition contains_points :: "(point \<Rightarrow> bool) \<Rightarrow> point list \<Rightarrow> bool list" where
  "contains_points polygon_path points = map polygon_path points"

text \<open>\<^verbatim>\<open>points[inside_grid]\<close>: the rows whose mask entry is true, in order.\<close>

definition mask_select :: "'a list \<Rightarrow> bool list \<Rightarrow> 'a list" where
  "mask_select points flags = map fst (filter snd (zip points flags))"

text \<open>
  \<^verbatim>\<open>random.choice(seq)\<close>: \<^verbatim>\<open>IndexError\<close> on an empty sequence, else
  \<^verbatim>\<open>seq[randbelow(len(seq))]\<close>, where the subscript raises if the index is out of
  range.
\<close>

definition random_choice ::
  "('r \<Rightarrow> nat \<Rightarrow> nat \<times> 'r) \<Rightarrow> 'r \<Rightarrow> 'a list \<Rightarrow> (error + 'a) \<times> 'r" where
  "random_choice randbelow r seq =
     (if length seq = 0 then (Inl IndexError, r)
      else (case randbelow r (length seq) of
              (i, r') \<Rightarrow> if i < length seq then (Inr (seq ! i), r') else (Inl IndexError, r')))"

text \<open>
  The body of the loop of \<^verbatim>\<open>generateRandPoint\<close> for one district;
  \<^verbatim>\<open>valid_points.size\<close> counts the numbers of the array, two per row.
\<close>

definition sample_district ::
  "('r \<Rightarrow> nat \<Rightarrow> nat \<times> 'r) \<Rightarrow> (json \<Rightarrow> error + (point \<Rightarrow> bool)) \<Rightarrow> point list \<Rightarrow>
   'r \<Rightarrow> DetroitDistrict \<Rightarrow> (error + DetroitDistrict) \<times> 'r" where
  "sample_district randbelow Path points r district =
     (if coordinates_ok (coordinates district) then
        (case Path (coordinates district) of
           Inl e \<Rightarrow> (Inl e, r)
         | Inr polygon_path \<Rightarrow>
             (let inside_grid = contains_points polygon_path points;
                  valid_points = mask_select points inside_grid
              in if 2 * length valid_points > 0 then
                   (case random_choice randbelow r valid_points of
                      (Inl e, r') \<Rightarrow> (Inl e, r')
                    | (Inr point, r') \<Rightarrow>
                        (Inr (district\<lparr>randomLong := Some (fst point),
                                        randomLat := Some (snd point)\<rparr>), r'))
                 else (Inr district, r)))
      else (Inr district, r))"

fun generateRandPoint_loop ::
  "('r \<Rightarrow> nat \<Rightarrow> nat \<times> 'r) \<Rightarrow> (json \<Rightarrow> error + (point \<Rightarrow> bool)) \<Rightarrow> point list \<Rightarrow>
   'r \<Rightarrow> DetroitDistrict list \<Rightarrow> error option \<times> 'r \<times> DetroitDistrict list" where
  "generateRandPoint_loop randbelow Path points r [] = (None, r, [])"
| "generateRandPoint_loop randbelow Path points r (district # rest) =
     (case sample_district randbelow Path points r district of
        (Inl e, r') \<Rightarrow> (Some e, r', district # rest)
      | (Inr district', r') \<Rightarrow>
          (case generateRandPoint_loop randbelow Path points r' rest of
             (e, r'', rest') \<Rightarrow> (e, r'', district' # rest')))"

definition generateRandPoint ::
  "('r \<Rightarrow> nat \<Rightarrow> nat \<times> 'r) \<Rightarrow> (json \<Rightarrow> error + (point \<Rightarrow> bool)) \<Rightarrow> point list \<Rightarrow>
   'r \<times> RedLines \<Rightarrow> error option \<times> 'r \<times> RedLines" where
  "generateRandPoint randbelow Path points st =
     (case st of
        (r, self) \<Rightarrow>
          (case generateRandPoint_loop randbelow Path points r (districts self) of
             (e, r', ds) \<Rightarrow> (e, r', self\<lparr>districts := ds\<rparr>)))"

text \<open>
  A run of the sampler in a fresh process: importing the module executes
  \<^verbatim>\<open>random.seed(17)\<close> (line 10), then \<^verbatim>\<open>generateRandPoint\<close> is called.
\<close>

definition seeded_generateRandPoint ::
  "(int \<Rightarrow> 'r) \<Rightarrow> ('r \<Rightarrow> nat \<Rightarrow> nat \<times> 'r) \<Rightarrow> (json \<Rightarrow> error + (point \<Rightarrow> bool)) \<Rightarrow>
   point list \<Rightarrow> RedLines \<Rightarrow> error option \<times> 'r \<times> RedLines" where
  "seeded_generateRandPoint seed randbelow Path points self =
     generateRandPoint randbelow Path points (seed 17, self)"

text \<open>
  The containment property of a district: if both coordinates of its sampled point are
  set, the point is a grid point and passes the point-in-polygon test of the district's
  boundary.
\<close>

definition point_ok ::
  "(json \<Rightarrow> error + (point \<Rightarrow> bool)) \<Rightarrow> point list \<Rightarrow> DetroitDistrict \<Rightarrow> bool" where
  "point_ok Path points d =
     (case (randomLong d, randomLat d) of
        (Some x, Some y) \<Rightarrow>
          (x, y) \<in> set points \<and>
          (case Path (coordinates d) of Inr polygon_path \<Rightarrow> polygon_path (x, y) | Inl e \<Rightarrow> False)
      | _ \<Rightarrow> True)"

section \<open>The two lookups\<close>

text \<open>
  A response of \<^verbatim>\<open>requests.get\<close>: its status, its text, and what
  \<^verbatim>\<open>response.json()\<close> returns (\<open>None\<close> when the body is not JSON and the call
  raises). The bodies are typed as the two services document them.
  For the FCC area service the body is a dict that may have a key \<^verbatim>\<open>results\<close>, a
  list of dicts each of which may have a key \<^verbatim>\<open>block_fips\<close>.
  For the ACS service it is a list of rows of strings, the header row first.
  Exceptions of the network layer itself are not modelled.
\<close>

record 'b response =
  status_code :: int
  text' :: string
  json_body :: "'b option"

type_synonym fcc_data = "string option list option"

type_synonym acs_data = "string list list"

text \<open>
  The FCC service is a function from the number of requests it has already received and
  the \<^verbatim>\<open>lat\<close> and \<^verbatim>\<open>lon\<close> parameters to a response; the requests sent so
  far are kept in the list \<open>sent\<close>. The body of the loop of \<^verbatim>\<open>fetchCensus\<close> for one
  district follows; \<^verbatim>\<open>s[2:11]\<close> is \<open>take 9 (drop 2 s)\<close>.
\<close>

definition fetchCensus_body ::
  "(nat \<Rightarrow> real \<Rightarrow> real \<Rightarrow> fcc_data response) \<Rightarrow> (real \<times> real) list \<Rightarrow> DetroitDistrict \<Rightarrow>
   (error + DetroitDistrict) \<times> (real \<times> real) list" where
  "fetchCensus_body fcc sent district =
     (case (randomLat district, randomLong district) of
        (Some lat, Some lon) \<Rightarrow>
          (let response = fcc (length sent) lat lon;
               sent' = sent @ [(lat, lon)]
           in if status_code response = 200 then
                (case json_body response of
                   None \<Rightarrow> (Inl JSONDecodeError, sent')
                 | Some data \<Rightarrow>
                     (case data of
                        Some (result0 # others) \<Rightarrow>
                          (case result0 of
                             None \<Rightarrow> (Inl KeyError, sent')
                           | Some fips \<Rightarrow>
                               (Inr (district\<lparr>censusTract := Some (take 9 (drop 2 fips))\<rparr>),
                                sent'))
                      | _ \<Rightarrow> (Inr district, sent')))
              else (Inr district, sent'))
      | _ \<Rightarrow> (Inr district, sent))"

fun fetchCensus_loop ::
  "(nat \<Rightarrow> real \<Rightarrow> real \<Rightarrow> fcc_data response) \<Rightarrow> (real \<times> real) list \<Rightarrow>
   DetroitDistrict list \<Rightarrow> error option \<times> (real \<times> real) list \<times> DetroitDistrict list" where
  "fetchCensus_loop fcc sent [] = (None, sent, [])"
| "fetchCensus_loop fcc sent (district # rest) =
     (case fetchCensus_body fcc sent district of
        (Inl e, sent') \<Rightarrow> (Some e, sent', district # rest)
      | (Inr district', sent') \<Rightarrow>
          (case fetchCensus_loop fcc sent' rest of
             (e, sent'', rest') \<Rightarrow> (e, sent'', district' # rest')))"

definition fetchCensus ::
  "(nat \<Rightarrow> real \<Rightarrow> real \<Rightarrow> fcc_data response) \<Rightarrow> (real \<times> real) list \<times> RedLines \<Rightarrow>
   error option \<times> (real \<times> real) list \<times> RedLines" where
  "fetchCensus fcc st =
     (case st of
        (sent, self) \<Rightarrow>
          (case fetchCensus_loop fcc sent (districts self) of
             (e, sent', ds) \<Rightarrow> (e, sent', self\<lparr>districts := ds\<rparr>)))"

text \<open>
  \<^verbatim>\<open>fetchIncome\<close>. Python's \<^verbatim>\<open>int\<close> on a string is a parameter \<open>py_int\<close>
  (\<open>None\<close> when it raises \<^verbatim>\<open>ValueError\<close>). One entry of the dict comprehension:
  the key \<^verbatim>\<open>item[2] + item[3]\<close> is evaluated first, then the value.
\<close>

definition income_item :: "(string \<Rightarrow> int option) \<Rightarrow> string list \<Rightarrow> error + string \<times> int" where
  "income_item py_int item =
     (if length item < 4 then Inl IndexError
      else if item ! 0 \<noteq> ''-666666666'' then
        (case py_int (item ! 0) of
           None \<Rightarrow> Inl ValueError
         | Some v \<Rightarrow> Inr (item ! 2 @ item ! 3, v))
      else Inr (item ! 2 @ item ! 3, 0))"

text \<open>
  The comprehension fills the dict row by row; a key met again takes the new value and
  keeps its place, as \<open>AList.update\<close> does.
\<close>

fun income_dict ::
  "(string \<Rightarrow> int option) \<Rightarrow> string list list \<Rightarrow> (string \<times> int) list \<Rightarrow>
   error + (string \<times> int) list" where
  "income_dict py_int [] acc = Inr acc"
| "income_dict py_int (item # items) acc =
     (case income_item py_int item of
        Inl e \<Rightarrow> Inl e
      | Inr (k, v) \<Rightarrow> income_dict py_int items (AList.update k v acc))"

text \<open>What \<^verbatim>\<open>fetchIncome\<close> prints, one value per \<^verbatim>\<open>print\<close> call.\<close>

datatype message =
    PrintIncomeData "(string \<times> int) list"
  | Updated json int
  | NoData json
  | Failed int string

text \<open>The body of the loop over the districts: the assignment and the line it prints.\<close>

definition assign_income :: "(string \<times> int) list \<Rightarrow> DetroitDistrict \<Rightarrow> DetroitDistrict \<times> message" where
  "assign_income income_data district =
     (case Option.bind (censusTract district) (map_of income_data) of
        Some v \<Rightarrow> (district\<lparr>medIncome := Some v\<rparr>, Updated (id' district) v)
      | None \<Rightarrow> (district\<lparr>medIncome := Some 0\<rparr>, NoData (id' district)))"

definition fetchIncome ::
  "(string \<Rightarrow> int option) \<Rightarrow> acs_data response \<Rightarrow> message list \<times> RedLines \<Rightarrow>
   error option \<times> message list \<times> RedLines" where
  "fetchIncome py_int response st =
     (case st of
        (out, self) \<Rightarrow>
          if status_code response = 200 then
            (case json_body response of
               None \<Rightarrow> (Some JSONDecodeError, out, self)
             | Some data \<Rightarrow>
                 (case income_dict py_int (drop 1 data) [] of
                    Inl e \<Rightarrow> (Some e, out, self)
                  | Inr income_data \<Rightarrow>
                      (let assigned = map (assign_income income_data) (districts self)
                       in (None, out @ [PrintIncomeData income_data] @ map snd assigned,
                           self\<lparr>districts := map fst assigned\<rparr>))))
          else (None, out @ [Failed (status_code response) (text' response)], self))"

section \<open>Example inputs\<close>

text \<open>
  A square ring, features around it (one without its grade), a file system with one
  GeoJSON file and one file that is not JSON, and a parser that knows the text of the
  first.
\<close>

definition example_ring :: json where
  "example_ring =
     JArr [JArr [JNum 0, JNum 0], JArr [JNum 2, JNum 0], JArr [JNum 2, JNum 2],
       JArr [JNum 0, JNum 2]]"

definition example_geometry :: json where
  "example_geometry = JObj [(''coordinates'', JArr [JArr [example_ring]])]"

definition example_feature :: "string \<Rightarrow> string \<Rightarrow> json" where
  "example_feature grade holc_id =
     JObj [(''properties'',
             JObj [(''holc_grade'', JStr grade), (''holc_id'', JStr holc_id),
               (''area_description_data'', JObj [(''8'', JStr ''text'')])]),
           (''geometry'', example_geometry)]"

definition example_feature_no_grade :: json where
  "example_feature_no_grade =
     JObj [(''properties'',
             JObj [(''holc_id'', JStr ''D2''),
               (''area_description_data'', JObj [(''8'', JStr ''text'')])]),
           (''geometry'', example_geometry)]"

definition example_district :: "string \<Rightarrow> string \<Rightarrow> string \<Rightarrow> DetroitDistrict" where
  "example_district grade holc_id color =
     \<lparr>coordinates = example_ring, holcGrade = JStr grade, id' = JStr holc_id,
      description = JStr ''text'', randomLat = None, randomLong = None, medIncome = None,
      censusTract = None, holcColor = color\<rparr>"

definition example_fs :: "string \<Rightarrow> string option" where
  "example_fs name =
     (if name = ''redlines_data.json'' then Some ''geojson''
      else if name = ''broken.json'' then Some ''{''
      else None)"

definition example_json_load :: "json \<Rightarrow> string \<Rightarrow> json option" where
  "example_json_load data txt = (if txt = ''geojson'' then Some data else None)"

definition example_data :: json where
  "example_data =
     JObj [(''type'', JStr ''FeatureCollection''),
           (''features'', JArr [example_feature ''A'' ''A1'', example_feature_no_grade,
              example_feature ''D'' ''D3''])]"

definition example_data_good :: json where
  "example_data_good =
     JObj [(''features'', JArr [example_feature ''A'' ''A1'', example_feature ''D'' ''D3''])]"

text \<open>
  A sampler environment: a point test for the square ring (and a constructor that
  refuses an empty vertex list), four grid points, and a generator whose state is a
  counter.
\<close>

definition in_square :: "point \<Rightarrow> bool" where
  "in_square q = (0 < fst q \<and> fst q < 2 \<and> 0 < snd q \<and> snd q < 2)"

definition example_Path :: "json \<Rightarrow> error + (point \<Rightarrow> bool)" where
  "example_Path c =
     (if c = example_ring then Inr in_square
      else if c = JArr [] then Inl ValueError
      else Inr (\<lambda>q. False))"

definition example_points :: "point list" where
  "example_points = [(1, 1), (3, 3), (1 / 2, 3 / 2), (5, 5)]"

definition example_randbelow :: "nat \<Rightarrow> nat \<Rightarrow> nat \<times> nat" where
  "example_randbelow r n = (r mod n, r + 1)"

definition example_seed :: "int \<Rightarrow> nat" where
  "example_seed s = nat s"

definition example_catalog :: RedLines where
  "example_catalog =
     \<lparr>districts = [example_district ''A'' ''A1'' ''darkgreen'',
        (example_district ''B'' ''B2'' ''cornflowerblue'')\<lparr>coordinates := JNull\<rparr>,
        (example_district ''D'' ''D3'' ''maroon'')\<lparr>coordinates :=
           JArr [JArr [JNum 7, JNum 7], JArr [JNum 8, JNum 7], JArr [JNum 8, JNum 8]]\<rparr>]\<rparr>"

definition example_district_far :: DetroitDistrict where
  "example_district_far =
     (example_district ''D'' ''D3'' ''maroon'')\<lparr>coordinates :=
        JArr [JArr [JNum 7, JNum 7], JArr [JNum 8, JNum 7], JArr [JNum 8, JNum 8]]\<rparr>"

definition example_catalog_enriched :: RedLines where
  "example_catalog_enriched =
     \<lparr>districts = map (\<lambda>d. d\<lparr>medIncome := Some 41000, censusTract := Some ''163512100''\<rparr>)
        (districts example_catalog)\<rparr>"

definition example_fcc :: "nat \<Rightarrow> real \<Rightarrow> real \<Rightarrow> fcc_data response" where
  "example_fcc n lat lon =
     (if n = 0 then \<lparr>status_code = 503, text' = ''Service Unavailable'', json_body = None\<rparr>
      else \<lparr>status_code = 200, text' = ''ok'',
             json_body = Some (Some [Some ''261635121001004''])\<rparr>)"

definition example_sampled :: DetroitDistrict where
  "example_sampled =
     (example_district ''A'' ''A1'' ''darkgreen'')
       \<lparr>randomLong := Some (1 / 2), randomLat := Some (3 / 2)\<rparr>"

definition example_py_int :: "string \<Rightarrow> int option" where
  "example_py_int s =
     (if s = ''41000'' then Some 41000 else if s = ''52500'' then Some 52500 else None)"

definition example_acs :: "acs_data response" where
  "example_acs =
     \<lparr>status_code = 200, text' = ''rows'',
      json_body = Some [[''B19013_001E'', ''state'', ''county'', ''tract''],
        [''41000'', ''26'', ''163'', ''512100''],
        [''-666666666'', ''26'', ''163'', ''985000'']]\<rparr>"

definition example_enriched :: "string option \<Rightarrow> DetroitDistrict" where
  "example_enriched tract = (example_district ''A'' ''A1'' ''darkgreen'')\<lparr>censusTract := tract\<rparr>"

definition example_acs_down :: "acs_data response" where
  "example_acs_down = \<lparr>status_code = 500, text' = ''Internal Server Error'', json_body = None\<rparr>"

definition example_catalog_sampled :: RedLines where
  "example_catalog_sampled =
     \<lparr>districts = [example_sampled,
        (example_district ''B'' ''B2'' ''cornflowerblue'')\<lparr>coordinates := JNull\<rparr>,
        example_district_far]\<rparr>"

section \<open>The choice among the inside grid points\<close>

text \<open>
  \<^verbatim>\<open>random.choice\<close> draws its index uniformly below the length of the sequence: that
  is the library's contract, and the generator of the model only delivers the index.
  The probability with which the loop body gives a district the point \<open>q\<close> is
  therefore the share, among the indices below the number of valid points, of those
  whose draw makes the loop body assign \<open>q\<close>. The loop body is run on each such draw.
\<close>

definition assigns_on_draw ::
  "(json \<Rightarrow> error + (point \<Rightarrow> bool)) \<Rightarrow> point list \<Rightarrow> DetroitDistrict \<Rightarrow> point \<Rightarrow> nat \<Rightarrow> bool" where
  "assigns_on_draw Path points d q k =
     (fst (sample_district (\<lambda>r n. (k, r)) Path points () d) =
        Inr (d\<lparr>randomLong := Some (fst q), randomLat := Some (snd q)\<rparr>))"

definition choice_probability ::
  "(json \<Rightarrow> error + (point \<Rightarrow> bool)) \<Rightarrow> point list \<Rightarrow> DetroitDistrict \<Rightarrow> point \<Rightarrow> real" where
  "choice_probability Path points d q =
     (let n = (case Path (coordinates d) of
                 Inl e \<Rightarrow> 0
               | Inr polygon_path \<Rightarrow>
                   length (mask_select points (contains_points polygon_path points)))
      in real (length (filter (assigns_on_draw Path points d q) [0..<n])) / real n)"

section \<open>The point test of the library on a vertex list\<close>

text \<open>
  An instance of the parameter \<open>Path\<close>, used for examples: the even-odd crossings
  test that \<^verbatim>\<open>contains_points\<close> runs with radius 0 on a path without codes. A ray
  leaves the point in the direction of growing x; an edge counts when its ends lie on
  different sides of the ray's line (a vertex on the line counts as above) and it meets
  the ray, an edge going up also when it passes through the point itself. The edges
  are those between consecutive vertices and the one that closes the path.
\<close>

definition edge_hit :: "point \<Rightarrow> point \<Rightarrow> point \<Rightarrow> bool" where
  "edge_hit v0 v1 t =
     (let yflag0 = (snd v0 \<ge> snd t);
          yflag1 = (snd v1 \<ge> snd t)
      in yflag0 \<noteq> yflag1 \<and>
         (((snd v1 - snd t) * (fst v0 - fst v1) \<ge> (fst v1 - fst t) * (snd v0 - snd v1)) = yflag1))"

definition polygon_edges :: "point list \<Rightarrow> (point \<times> point) list" where
  "polygon_edges vs = (case vs of [] \<Rightarrow> [] | v # rest \<Rightarrow> zip vs (rest @ [v]))"

definition point_in_path :: "point list \<Rightarrow> point \<Rightarrow> bool" where
  "point_in_path vs t =
     odd (length (filter (\<lambda>edge. edge_hit (fst edge) (snd edge) t) (polygon_edges vs)))"

text \<open>
  The vertex array of a list of pairs of numbers; other contents are refused here, as
  the constructor refuses what it cannot read as an N by 2 array, and so is the empty
  list.
\<close>

fun vertex_of :: "json \<Rightarrow> error + point" where
  "vertex_of (JArr [JNum x, JNum y]) = Inr (x, y)"
| "vertex_of other = Inl ValueError"

fun vertices_of :: "json list \<Rightarrow> error + point list" where
  "vertices_of [] = Inr []"
| "vertices_of (c # cs) =
     bind_err (vertex_of c) (\<lambda>v. bind_err (vertices_of cs) (\<lambda>vs. Inr (v # vs)))"

definition crossings_Path :: "json \<Rightarrow> error + (point \<Rightarrow> bool)" where
  "crossings_Path c =
     (case c of
        JArr (v # cs) \<Rightarrow>
          (case vertices_of (v # cs) of Inl e \<Rightarrow> Inl e | Inr vs \<Rightarrow> Inr (point_in_path vs))
      | _ \<Rightarrow> Inl ValueError)"

text \<open>
  A point lies on the boundary of a polygon when it lies on one of its edges; a point
  strictly inside does not.
\<close>

definition on_segment :: "point \<Rightarrow> point \<Rightarrow> point \<Rightarrow> bool" where
  "on_segment a b q =
     ((fst b - fst a) * (snd q - snd a) = (snd b - snd a) * (fst q - fst a) \<and>
      min (fst a) (fst b) \<le> fst q \<and> fst q \<le> max (fst a) (fst b) \<and>
      min (snd a) (snd b) \<le> snd q \<and> snd q \<le> max (snd a) (snd b))"

definition on_boundary :: "point list \<Rightarrow> point \<Rightarrow> bool" where
  "on_boundary vs q = list_ex (\<lambda>edge. on_segment (fst edge) (snd edge) q) (polygon_edges vs)"

text \<open>
  The vertices of the square ring, and a grid that holds the midpoints of its four
  edges and a point far from it.
\<close>

definition example_square :: "point list" where
  "example_square = [(0, 0), (2, 0), (2, 2), (0, 2)]"

definition example_edge_points :: "point list" where
  "example_edge_points = [(3, 3), (1, 0), (2, 1), (1, 2), (0, 1)]"

section \<open>Facts about the constructor and the loader\<close>

lemma bind_err_Inr_iff: "bind_err m f = Inr y \<longleftrightarrow> (\<exists>x. m = Inr x \<and> f x = Inr y)"
  by (cases m) (simp_all add: bind_err_def)

lemma bind_err_Inl: "m = Inl e \<Longrightarrow> bind_err m f = Inl e"
  by (simp add: bind_err_def)

lemma bind_err_Inr: "m = Inr x \<Longrightarrow> bind_err m f = f x"
  by (simp add: bind_err_def)

lemma DetroitDistrict_init_Inr:
  "DetroitDistrict_init c g i x col lat lon inc tract = Inr d \<Longrightarrow>
   coordinates d = c \<and> holcGrade d = g \<and> id' d = i \<and> description d = x \<and>
   randomLat d = lat \<and> randomLong d = lon \<and> medIncome d = inc \<and> censusTract d = tract"
  by (auto simp: DetroitDistrict_init_def bind_err_Inr_iff)

lemma district_of_feature_fields:
  assumes "district_of_feature g = Inr d"
  shows "\<exists>props geometry cs c0 a.
     getitem g ''properties'' = Inr props \<and>
     getitem g ''geometry'' = Inr geometry \<and>
     getitem geometry ''coordinates'' = Inr cs \<and>
     getitem0 cs = Inr c0 \<and>
     getitem0 c0 = Inr (coordinates d) \<and>
     getitem props ''holc_grade'' = Inr (holcGrade d) \<and>
     getitem props ''holc_id'' = Inr (id' d) \<and>
     getitem props ''area_description_data'' = Inr a \<and>
     getitem a ''8'' = Inr (description d) \<and>
     randomLat d = None \<and> randomLong d = None \<and> medIncome d = None \<and> censusTract d = None"
  using assms unfolding district_of_feature_def bind_err_Inr_iff
  by (auto dest!: DetroitDistrict_init_Inr)

lemma lacks_property_fails:
  assumes "lacks_property f key" and "key \<in> set required_keys"
  shows "\<exists>e. district_of_feature f = Inl e"
proof (cases "district_of_feature f")
  case (Inl e)
  then show ?thesis by blast
next
  case (Inr d)
  from district_of_feature_fields [OF Inr] obtain props a where
    p: "getitem f ''properties'' = Inr props" and
    g: "getitem props ''holc_grade'' = Inr (holcGrade d)" and
    i: "getitem props ''holc_id'' = Inr (id' d)" and
    a: "getitem props ''area_description_data'' = Inr a"
    by blast
  from assms(1) obtain kvs where f: "f = JObj kvs"
    by (cases f) (simp_all add: lacks_property_def)
  with p have m: "map_of kvs ''properties'' = Some props"
    by (simp split: option.splits)
  with assms(1) f obtain ps where props: "props = JObj ps" and none: "map_of ps key = None"
    by (cases props) (simp_all add: lacks_property_def)
  from assms(2) have "key = ''holc_grade'' \<or> key = ''holc_id'' \<or> key = ''area_description_data''"
    by (simp add: required_keys_def)
  with g i a props none show ?thesis by auto
qed

lemma createDistricts_loop_prefix:
  "list_all2 (\<lambda>g d. district_of_feature g = Inr d) good new \<Longrightarrow>
   createDistricts_loop ds (good @ rest) = createDistricts_loop (ds @ new) rest"
  by (induction good new arbitrary: ds rule: list_all2_induct) simp_all

lemma createDistricts_loop_shape:
  "createDistricts_loop ds fs = (e, ds') \<Longrightarrow>
   \<exists>good new. list_all2 (\<lambda>g d. district_of_feature g = Inr d) good new \<and> ds' = ds @ new \<and>
     (case e of None \<Rightarrow> fs = good
      | Some err \<Rightarrow> \<exists>bad rest. fs = good @ bad # rest \<and> district_of_feature bad = Inl err)"
proof (induction fs arbitrary: ds)
  case Nil
  then show ?case by auto
next
  case (Cons f fs)
  show ?case
  proof (cases "district_of_feature f")
    case (Inl err)
    with Cons.prems have "e = Some err" "ds' = ds" by simp_all
    with Inl show ?thesis by (intro exI [of _ "[]"]) auto
  next
    case (Inr d)
    with Cons.prems have "createDistricts_loop (ds @ [d]) fs = (e, ds')" by simp
    from Cons.IH [OF this] obtain good new where
      h: "list_all2 (\<lambda>g d. district_of_feature g = Inr d) good new" "ds' = (ds @ [d]) @ new"
        "(case e of None \<Rightarrow> fs = good
          | Some err \<Rightarrow> \<exists>bad rest. fs = good @ bad # rest \<and> district_of_feature bad = Inl err)"
      by blast
    show ?thesis
      using h Inr
      by (intro exI [of _ "f # good"] exI [of _ "d # new"]) (auto split: option.splits)
  qed
qed

lemma createDistricts_loop_raises:
  "f \<in> set fs \<Longrightarrow> district_of_feature f = Inl e0 \<Longrightarrow>
   \<exists>e ds'. createDistricts_loop ds fs = (Some e, ds')"
proof (induction fs arbitrary: ds)
  case Nil
  then show ?case by simp
next
  case (Cons g fs)
  then show ?case by (cases "district_of_feature g") auto
qed

section \<open>The colour of a grade\<close>

text \<open>
  C3. A district constructed without a colour argument gets a colour that depends on
  its grade alone: grade A gives darkgreen, B gives cornflowerblue (the blue of the
  mapping), C gives gold, D gives maroon, and every other grade the dict lookup accepts
  (any other string, a number, a boolean, \<^verbatim>\<open>None\<close>) gives grey. None of the other
  constructor arguments has a say.
\<close>

theorem holcColor_of_grade:
  "hashable g \<Longrightarrow>
   \<exists>d. DetroitDistrict_init c g i x None lat lon inc tract = Inr d \<and>
       holcColor d =
         (if g = JStr ''A'' then ''darkgreen''
          else if g = JStr ''B'' then ''cornflowerblue''
          else if g = JStr ''C'' then ''gold''
          else if g = JStr ''D'' then ''maroon''
          else ''grey'')"
  by (cases g) (auto simp: DetroitDistrict_init_def bind_err_def color_map_get_def
      color_map_def)

theorem holcColor_of_grade_witness:
  "hashable (JStr ''A'') \<and>
   (\<exists>d. DetroitDistrict_init (JArr []) (JStr ''A'') (JStr ''A1'') (JStr '''') None None None
          None None = Inr d \<and> holcColor d = ''darkgreen'') \<and>
   hashable (JStr ''E'') \<and>
   (\<exists>d. DetroitDistrict_init (JArr []) (JStr ''E'') (JStr ''E1'') (JStr '''') None None None
          None None = Inr d \<and> holcColor d = ''grey'')"
  using holcColor_of_grade [of "JStr ''A''" "JArr []" "JStr ''A1''" "JStr ''''" None None None None]
    holcColor_of_grade [of "JStr ''E''" "JArr []" "JStr ''E1''" "JStr ''''" None None None None]
  by simp

section \<open>Loading fails on bad input\<close>

lemma example_feature_parses:
  "district_of_feature (example_feature ''A'' ''A1'') = Inr (example_district ''A'' ''A1'' ''darkgreen'')"
  by (simp add: district_of_feature_def example_feature_def example_geometry_def
      example_district_def bind_err_def DetroitDistrict_init_def color_map_get_def color_map_def)

lemma example_feature_no_grade_fails:
  "district_of_feature example_feature_no_grade = Inl KeyError"
  by (simp add: district_of_feature_def example_feature_no_grade_def example_geometry_def
      bind_err_def)

lemma createDistricts_absent:
  "fs fileName = None \<Longrightarrow> createDistricts fs json_load self fileName = (Some FileNotFoundError, self)"
  by (simp add: createDistricts_def open_read_def)

lemma createDistricts_not_json:
  "fs fileName = Some txt \<Longrightarrow> json_load txt = None \<Longrightarrow>
   createDistricts fs json_load self fileName = (Some JSONDecodeError, self)"
  by (simp add: createDistricts_def open_read_def)

lemma createDistricts_features:
  "fs fileName = Some txt \<Longrightarrow> json_load txt = Some data \<Longrightarrow>
   getitem data ''features'' = Inr (JArr features) \<Longrightarrow>
   createDistricts fs json_load self fileName =
     (case createDistricts_loop (districts self) features of
        (e, ds) \<Rightarrow> (e, self\<lparr>districts := ds\<rparr>))"
  by (simp add: createDistricts_def open_read_def bind_err_def)

lemma lacks_description8_fails:
  assumes "lacks_description8 f"
  shows "\<exists>e. district_of_feature f = Inl e"
proof (cases "district_of_feature f")
  case (Inl e)
  then show ?thesis by blast
next
  case (Inr d)
  from district_of_feature_fields [OF Inr] obtain props a where
    p: "getitem f ''properties'' = Inr props" and
    a: "getitem props ''area_description_data'' = Inr a" and
    d: "getitem a ''8'' = Inr (description d)"
    by blast
  from assms p a obtain kvs where "a = JObj kvs" "map_of kvs ''8'' = None"
    by (cases a) (simp_all add: lacks_description8_def)
  with d show ?thesis by simp
qed

lemma list_all2_source:
  "list_all2 P xs ys \<Longrightarrow> y \<in> set ys \<Longrightarrow> \<exists>x \<in> set xs. P x y"
  by (induction xs ys rule: list_all2_induct) auto

text \<open>
  C7. Loading fails with an exception, and the exception reaches the caller, when the
  file is absent (\<^verbatim>\<open>FileNotFoundError\<close>, catalog untouched), when its text is not
  JSON (\<^verbatim>\<open>JSONDecodeError\<close>, catalog untouched), and when some feature of the
  feature list lacks the grade, the identifier or the description key. In the last case
  nothing is recovered: the call raises, and every record it has appended before is the
  complete record of another feature, with grade, identifier and description read from
  that feature's properties; the feature with the missing key yields no record.
\<close>

theorem createDistricts_fails:
  "(fs fileName = None \<longrightarrow>
      createDistricts fs json_load self fileName = (Some FileNotFoundError, self)) \<and>
   (fs fileName = Some txt \<and> json_load txt = None \<longrightarrow>
      createDistricts fs json_load self fileName = (Some JSONDecodeError, self)) \<and>
   (fs fileName = Some txt \<and> json_load txt = Some data \<and>
    getitem data ''features'' = Inr (JArr features) \<and> f \<in> set features \<and>
    ((key \<in> set required_keys \<and> lacks_property f key) \<or> lacks_description8 f) \<longrightarrow>
      (\<exists>e new.
         createDistricts fs json_load self fileName =
           (Some e, self\<lparr>districts := districts self @ new\<rparr>) \<and>
         (\<forall>d \<in> set new. \<exists>g \<in> set features. g \<noteq> f \<and> district_of_feature g = Inr d \<and>
            (\<exists>props area.
               getitem g ''properties'' = Inr props \<and>
               getitem props ''holc_grade'' = Inr (holcGrade d) \<and>
               getitem props ''holc_id'' = Inr (id' d) \<and>
               getitem props ''area_description_data'' = Inr area \<and>
               getitem area ''8'' = Inr (description d)))))"
proof (intro conjI impI)
  assume "fs fileName = None"
  then show "createDistricts fs json_load self fileName = (Some FileNotFoundError, self)"
    by (rule createDistricts_absent)
next
  assume "fs fileName = Some txt \<and> json_load txt = None"
  then show "createDistricts fs json_load self fileName = (Some JSONDecodeError, self)"
    by (simp add: createDistricts_not_json)
next
  assume h: "fs fileName = Some txt \<and> json_load txt = Some data \<and>
    getitem data ''features'' = Inr (JArr features) \<and> f \<in> set features \<and>
    ((key \<in> set required_keys \<and> lacks_property f key) \<or> lacks_description8 f)"
  then obtain e0 where bad: "district_of_feature f = Inl e0"
    using lacks_property_fails lacks_description8_fails by blast
  from h have mem: "f \<in> set features" by simp
  from createDistricts_loop_raises [OF mem bad]
  obtain e ds' where loop: "createDistricts_loop (districts self) features = (Some e, ds')"
    by blast
  from createDistricts_loop_shape [OF loop] obtain good new bad' rest where
    good: "list_all2 (\<lambda>g d. district_of_feature g = Inr d) good new" and
    ds': "ds' = districts self @ new" and
    split: "features = good @ bad' # rest"
    by auto
  have run: "createDistricts fs json_load self fileName =
      (Some e, self\<lparr>districts := districts self @ new\<rparr>)"
    using h loop ds' by (simp add: createDistricts_features)
  have complete: "\<exists>g \<in> set features. g \<noteq> f \<and> district_of_feature g = Inr d \<and>
            (\<exists>props area.
               getitem g ''properties'' = Inr props \<and>
               getitem props ''holc_grade'' = Inr (holcGrade d) \<and>
               getitem props ''holc_id'' = Inr (id' d) \<and>
               getitem props ''area_description_data'' = Inr area \<and>
               getitem area ''8'' = Inr (description d))" if d_new: "d \<in> set new" for d
  proof -
    obtain g where g: "g \<in> set good" "district_of_feature g = Inr d"
      using list_all2_source [OF good d_new] by blast
    from g(2) bad have "g \<noteq> f" by auto
    moreover from g(1) split have "g \<in> set features" by simp
    moreover from district_of_feature_fields [OF g(2)]
    have "\<exists>props area.
               getitem g ''properties'' = Inr props \<and>
               getitem props ''holc_grade'' = Inr (holcGrade d) \<and>
               getitem props ''holc_id'' = Inr (id' d) \<and>
               getitem props ''area_description_data'' = Inr area \<and>
               getitem area ''8'' = Inr (description d)"
      by blast
    ultimately show ?thesis using g(2) by blast
  qed
  from run complete
  show "\<exists>e new.
         createDistricts fs json_load self fileName =
           (Some e, self\<lparr>districts := districts self @ new\<rparr>) \<and>
         (\<forall>d \<in> set new. \<exists>g \<in> set features. g \<noteq> f \<and> district_of_feature g = Inr d \<and>
            (\<exists>props area.
               getitem g ''properties'' = Inr props \<and>
               getitem props ''holc_grade'' = Inr (holcGrade d) \<and>
               getitem props ''holc_id'' = Inr (id' d) \<and>
               getitem props ''area_description_data'' = Inr area \<and>
               getitem area ''8'' = Inr (description d)))"
    by blast
qed

theorem createDistricts_fails_witness:
  "example_fs ''absent.json'' = None \<and>
   createDistricts example_fs (example_json_load example_data) RedLines_init ''absent.json'' =
     (Some FileNotFoundError, RedLines_init) \<and>
   example_fs ''broken.json'' = Some ''{'' \<and>
   example_json_load example_data ''{'' = None \<and>
   createDistricts example_fs (example_json_load example_data) RedLines_init ''broken.json'' =
     (Some JSONDecodeError, RedLines_init) \<and>
   example_fs ''redlines_data.json'' = Some ''geojson'' \<and>
   example_json_load example_data ''geojson'' = Some example_data \<and>
   getitem example_data ''features'' =
     Inr (JArr [example_feature ''A'' ''A1'', example_feature_no_grade,
       example_feature ''D'' ''D3'']) \<and>
   ''holc_grade'' \<in> set required_keys \<and>
   lacks_property example_feature_no_grade ''holc_grade'' \<and>
   createDistricts example_fs (example_json_load example_data) RedLines_init
       ''redlines_data.json'' =
     (Some KeyError, \<lparr>districts = [example_district ''A'' ''A1'' ''darkgreen'']\<rparr>)"
proof -
  have run: "createDistricts example_fs (example_json_load example_data) RedLines_init
       ''redlines_data.json'' =
     (Some KeyError, \<lparr>districts = [example_district ''A'' ''A1'' ''darkgreen'']\<rparr>)"
    by (simp add: createDistricts_def open_read_def example_fs_def example_json_load_def
        example_data_def bind_err_def RedLines_init_def example_feature_parses
        example_feature_no_grade_fails)
  have lacks: "lacks_property example_feature_no_grade ''holc_grade''"
    by (simp add: lacks_property_def example_feature_no_grade_def)
  show ?thesis
    using createDistricts_fails [of example_fs "''absent.json''"
        "example_json_load example_data" RedLines_init "''{''" example_data "[]"
        example_feature_no_grade "''holc_grade''"]
      createDistricts_fails [of example_fs "''broken.json''"
        "example_json_load example_data" RedLines_init "''{''" example_data "[]"
        example_feature_no_grade "''holc_grade''"]
      createDistricts_fails [of example_fs "''redlines_data.json''"
        "example_json_load example_data" RedLines_init "''geojson''" example_data
        "[example_feature ''A'' ''A1'', example_feature_no_grade, example_feature ''D'' ''D3'']"
        example_feature_no_grade "''holc_grade''"]
      run lacks
    by (simp add: example_fs_def example_json_load_def required_keys_def example_data_def)
qed

lemma createDistricts_loop_all_good:
  "list_all2 (\<lambda>g d. district_of_feature g = Inr d) good new \<Longrightarrow>
   createDistricts_loop ds good = (None, ds @ new)"
  using createDistricts_loop_prefix [of good new ds "[]"] by simp

lemma createDistricts_returned:
  assumes "createDistricts fs json_load self fileName = (None, self1)"
  shows "\<exists>txt data features new.
     fs fileName = Some txt \<and> json_load txt = Some data \<and>
     bind_err (getitem data ''features'') py_iter = Inr features \<and>
     list_all2 (\<lambda>g d. district_of_feature g = Inr d) features new \<and>
     self1 = self\<lparr>districts := districts self @ new\<rparr>"
proof -
  from assms obtain contents where opened: "fs fileName = Some contents"
    by (cases "fs fileName") (simp_all add: createDistricts_def open_read_def)
  with assms obtain data where data: "json_load contents = Some data"
    by (cases "json_load contents") (simp_all add: createDistricts_def open_read_def)
  with assms opened obtain features where
    features: "bind_err (getitem data ''features'') py_iter = Inr features"
    by (cases "bind_err (getitem data ''features'') py_iter")
      (simp_all add: createDistricts_def open_read_def)
  obtain e ds where loop: "createDistricts_loop (districts self) features = (e, ds)"
    by (cases "createDistricts_loop (districts self) features")
  with assms opened data features have e: "e = None" and self1: "self1 = self\<lparr>districts := ds\<rparr>"
    by (simp_all add: createDistricts_def open_read_def)
  from createDistricts_loop_shape [OF loop] e obtain new where
    "list_all2 (\<lambda>g d. district_of_feature g = Inr d) features new" "ds = districts self @ new"
    by auto
  with opened data features self1 show ?thesis by blast
qed

section \<open>Loading appends\<close>

text \<open>
  C9. Loading is not atomic and appends. When the features before the first malformed
  one all parse, the call raises the malformed feature's exception and leaves their
  records, as many as those features, appended to the districts the catalog already
  had. A load that returns leaves the old districts followed by the new ones, and
  loading the same file again appends the same records once more: from an empty catalog
  the second load gives the list twice, with twice the length.
\<close>

theorem createDistricts_appends:
  "(fs fileName = Some txt \<and> json_load txt = Some data \<and>
    getitem data ''features'' = Inr (JArr (good @ bad # rest)) \<and>
    list_all2 (\<lambda>g d. district_of_feature g = Inr d) good new \<and>
    district_of_feature bad = Inl e \<longrightarrow>
      createDistricts fs json_load self fileName =
        (Some e, self\<lparr>districts := districts self @ new\<rparr>) \<and>
      length new = length good) \<and>
   (createDistricts fs json_load self fileName = (None, self1) \<longrightarrow>
      (\<exists>new. districts self1 = districts self @ new \<and>
         createDistricts fs json_load self1 fileName =
           (None, self1\<lparr>districts := districts self @ new @ new\<rparr>))) \<and>
   (createDistricts fs json_load RedLines_init fileName = (None, self1) \<longrightarrow>
      (\<exists>self2. createDistricts fs json_load self1 fileName = (None, self2) \<and>
         districts self2 = districts self1 @ districts self1 \<and>
         length (districts self2) = 2 * length (districts self1)))"
proof (intro conjI impI)
  assume h: "fs fileName = Some txt \<and> json_load txt = Some data \<and>
    getitem data ''features'' = Inr (JArr (good @ bad # rest)) \<and>
    list_all2 (\<lambda>g d. district_of_feature g = Inr d) good new \<and>
    district_of_feature bad = Inl e"
  then have "createDistricts_loop (districts self) (good @ bad # rest) =
      (Some e, districts self @ new)"
    using createDistricts_loop_prefix [of good new "districts self" "bad # rest"] by simp
  with h show "createDistricts fs json_load self fileName =
        (Some e, self\<lparr>districts := districts self @ new\<rparr>)"
    by (simp add: createDistricts_features)
  from h show "length new = length good"
    by (auto dest: list_all2_lengthD)
next
  assume "createDistricts fs json_load self fileName = (None, self1)"
  from createDistricts_returned [OF this] obtain txt' data' features new where
    h: "fs fileName = Some txt'" "json_load txt' = Some data'"
      "bind_err (getitem data' ''features'') py_iter = Inr features"
      "list_all2 (\<lambda>g d. district_of_feature g = Inr d) features new"
      "self1 = self\<lparr>districts := districts self @ new\<rparr>"
    by blast
  have "createDistricts fs json_load self1 fileName =
      (None, self1\<lparr>districts := districts self @ new @ new\<rparr>)"
    using h by (simp add: createDistricts_def open_read_def createDistricts_loop_all_good)
  with h(5) show "\<exists>new. districts self1 = districts self @ new \<and>
         createDistricts fs json_load self1 fileName =
           (None, self1\<lparr>districts := districts self @ new @ new\<rparr>)"
    by auto
next
  assume "createDistricts fs json_load RedLines_init fileName = (None, self1)"
  from createDistricts_returned [OF this] obtain txt' data' features new where
    h: "fs fileName = Some txt'" "json_load txt' = Some data'"
      "bind_err (getitem data' ''features'') py_iter = Inr features"
      "list_all2 (\<lambda>g d. district_of_feature g = Inr d) features new"
      "self1 = RedLines_init\<lparr>districts := districts RedLines_init @ new\<rparr>"
    by blast
  have "createDistricts fs json_load self1 fileName =
      (None, self1\<lparr>districts := districts self1 @ new\<rparr>)"
    using h(1-4) by (simp add: createDistricts_def open_read_def createDistricts_loop_all_good)
  moreover from h(5) have "districts self1 = new"
    by (simp add: RedLines_init_def)
  ultimately show "\<exists>self2. createDistricts fs json_load self1 fileName = (None, self2) \<and>
         districts self2 = districts self1 @ districts self1 \<and>
         length (districts self2) = 2 * length (districts self1)"
    by simp
qed

lemma example_feature_D_parses:
  "district_of_feature (example_feature ''D'' ''D3'') = Inr (example_district ''D'' ''D3'' ''maroon'')"
  by (simp add: district_of_feature_def example_feature_def example_geometry_def
      example_district_def bind_err_def DetroitDistrict_init_def color_map_get_def color_map_def)

theorem createDistricts_appends_witness:
  "example_fs ''redlines_data.json'' = Some ''geojson'' \<and>
   example_json_load example_data ''geojson'' = Some example_data \<and>
   getitem example_data ''features'' =
     Inr (JArr ([example_feature ''A'' ''A1''] @ example_feature_no_grade #
       [example_feature ''D'' ''D3''])) \<and>
   list_all2 (\<lambda>g d. district_of_feature g = Inr d) [example_feature ''A'' ''A1'']
     [example_district ''A'' ''A1'' ''darkgreen''] \<and>
   district_of_feature example_feature_no_grade = Inl KeyError \<and>
   createDistricts example_fs (example_json_load example_data)
       \<lparr>districts = [example_district ''C'' ''C9'' ''gold'']\<rparr> ''redlines_data.json'' =
     (Some KeyError,
      \<lparr>districts = [example_district ''C'' ''C9'' ''gold'',
         example_district ''A'' ''A1'' ''darkgreen'']\<rparr>) \<and>
   createDistricts example_fs (example_json_load example_data_good) RedLines_init
       ''redlines_data.json'' =
     (None, \<lparr>districts = [example_district ''A'' ''A1'' ''darkgreen'',
        example_district ''D'' ''D3'' ''maroon'']\<rparr>) \<and>
   createDistricts example_fs (example_json_load example_data_good)
       \<lparr>districts = [example_district ''A'' ''A1'' ''darkgreen'',
          example_district ''D'' ''D3'' ''maroon'']\<rparr> ''redlines_data.json'' =
     (None, \<lparr>districts = [example_district ''A'' ''A1'' ''darkgreen'',
        example_district ''D'' ''D3'' ''maroon'', example_district ''A'' ''A1'' ''darkgreen'',
        example_district ''D'' ''D3'' ''maroon'']\<rparr>)"
proof -
  have opened: "example_fs ''redlines_data.json'' = Some ''geojson''"
    by (simp add: example_fs_def)
  have parsed: "example_json_load d ''geojson'' = Some d" for d
    by (simp add: example_json_load_def)
  have features: "getitem example_data ''features'' =
     Inr (JArr ([example_feature ''A'' ''A1''] @ example_feature_no_grade #
       [example_feature ''D'' ''D3'']))"
    by (simp add: example_data_def)
  have good: "list_all2 (\<lambda>g d. district_of_feature g = Inr d) [example_feature ''A'' ''A1'']
     [example_district ''A'' ''A1'' ''darkgreen'']"
    by (simp add: example_feature_parses)
  have first: "createDistricts example_fs (example_json_load example_data_good) RedLines_init
       ''redlines_data.json'' =
     (None, \<lparr>districts = [example_district ''A'' ''A1'' ''darkgreen'',
        example_district ''D'' ''D3'' ''maroon'']\<rparr>)"
    by (simp add: createDistricts_def open_read_def example_fs_def example_json_load_def
        example_data_good_def bind_err_def RedLines_init_def example_feature_parses
        example_feature_D_parses)
  note raised = createDistricts_appends [of example_fs "''redlines_data.json''" "''geojson''"
        "example_json_load example_data" example_data "[example_feature ''A'' ''A1'']"
        example_feature_no_grade "[example_feature ''D'' ''D3'']"
        "[example_district ''A'' ''A1'' ''darkgreen'']" KeyError
        "\<lparr>districts = [example_district ''C'' ''C9'' ''gold'']\<rparr>"
        "\<lparr>districts = [example_district ''A'' ''A1'' ''darkgreen'',
           example_district ''D'' ''D3'' ''maroon'']\<rparr>", THEN conjunct1]
  note twice = createDistricts_appends [of example_fs "''redlines_data.json''" "''geojson''"
        "example_json_load example_data_good" example_data_good "[]"
        example_feature_no_grade "[]" "[]" KeyError RedLines_init
        "\<lparr>districts = [example_district ''A'' ''A1'' ''darkgreen'',
           example_district ''D'' ''D3'' ''maroon'']\<rparr>", THEN conjunct2, THEN conjunct2]
  from raised opened parsed features good example_feature_no_grade_fails
  have r1: "createDistricts example_fs (example_json_load example_data)
       \<lparr>districts = [example_district ''C'' ''C9'' ''gold'']\<rparr> ''redlines_data.json'' =
     (Some KeyError,
      \<lparr>districts = [example_district ''C'' ''C9'' ''gold'',
         example_district ''A'' ''A1'' ''darkgreen'']\<rparr>)"
    by simp
  from twice first
  have r2: "createDistricts example_fs (example_json_load example_data_good)
       \<lparr>districts = [example_district ''A'' ''A1'' ''darkgreen'',
          example_district ''D'' ''D3'' ''maroon'']\<rparr> ''redlines_data.json'' =
     (None, \<lparr>districts = [example_district ''A'' ''A1'' ''darkgreen'',
        example_district ''D'' ''D3'' ''maroon'', example_district ''A'' ''A1'' ''darkgreen'',
        example_district ''D'' ''D3'' ''maroon'']\<rparr>)"
    by auto
  from opened parsed features good example_feature_no_grade_fails r1 first r2
  show ?thesis by simp
qed

section \<open>The loop body of the sampler\<close>

lemma mask_select_contains_points:
  "mask_select points (contains_points polygon_path points) = filter polygon_path points"
  by (induction points) (simp_all add: mask_select_def contains_points_def)

lemma random_choice_cases:
  assumes "random_choice randbelow r seq = (res, r')"
  shows "(\<exists>e. res = Inl e) \<or>
         (\<exists>k. k < length seq \<and> randbelow r (length seq) = (k, r') \<and> res = Inr (seq ! k))"
  using assms
  by (auto simp: random_choice_def split: if_splits prod.splits)

lemma random_choice_draw:
  "randbelow r (length seq) = (k, r') \<Longrightarrow> k < length seq \<Longrightarrow>
   random_choice randbelow r seq = (Inr (seq ! k), r')"
  by (auto simp: random_choice_def)

text \<open>What one pass of the loop body can do to a district.\<close>

lemma sample_district_cases:
  assumes "sample_district randbelow Path points r d = (res, r')"
  shows "(res = Inr d \<and> r' = r) \<or> (\<exists>e. res = Inl e) \<or>
     (\<exists>polygon_path k.
        coordinates_ok (coordinates d) \<and> Path (coordinates d) = Inr polygon_path \<and>
        k < length (filter polygon_path points) \<and>
        randbelow r (length (filter polygon_path points)) = (k, r') \<and>
        res = Inr (d\<lparr>randomLong := Some (fst (filter polygon_path points ! k)),
                     randomLat := Some (snd (filter polygon_path points ! k))\<rparr>))"
proof (cases "coordinates_ok (coordinates d)")
  case False
  with assms show ?thesis by (simp add: sample_district_def)
next
  case ok: True
  show ?thesis
  proof (cases "Path (coordinates d)")
    case (Inl e)
    with assms ok show ?thesis by (auto simp: sample_district_def)
  next
    case (Inr polygon_path)
    show ?thesis
    proof (cases "filter polygon_path points = []")
      case True
      with assms ok Inr show ?thesis
        by (simp add: sample_district_def mask_select_contains_points)
    next
      case False
      obtain c r1 where c: "random_choice randbelow r (filter polygon_path points) = (c, r1)"
        by (cases "random_choice randbelow r (filter polygon_path points)")
      from random_choice_cases [OF c] assms ok Inr False c show ?thesis
        by (auto simp: sample_district_def mask_select_contains_points Let_def)
    qed
  qed
qed

lemma sample_district_skip:
  "\<not> coordinates_ok (coordinates d) \<Longrightarrow> sample_district randbelow Path points r d = (Inr d, r)"
  by (simp add: sample_district_def)

lemma sample_district_empty:
  "Path (coordinates d) = Inr polygon_path \<Longrightarrow> filter polygon_path points = [] \<Longrightarrow>
   sample_district randbelow Path points r d = (Inr d, r)"
  by (simp add: sample_district_def mask_select_contains_points)

lemma sample_district_draw:
  "coordinates_ok (coordinates d) \<Longrightarrow> Path (coordinates d) = Inr polygon_path \<Longrightarrow>
   randbelow r (length (filter polygon_path points)) = (k, r') \<Longrightarrow>
   k < length (filter polygon_path points) \<Longrightarrow>
   sample_district randbelow Path points r d =
     (Inr (d\<lparr>randomLong := Some (fst (filter polygon_path points ! k)),
              randomLat := Some (snd (filter polygon_path points ! k))\<rparr>), r')"
  by (cases "filter polygon_path points = []")
    (simp_all add: sample_district_def mask_select_contains_points random_choice_draw Let_def)

text \<open>A relation between the districts before and after holds along the whole loop.\<close>

lemma generateRandPoint_loop_rel:
  assumes step: "\<And>r d d' r'. sample_district randbelow Path points r d = (Inr d', r') \<Longrightarrow> R d d'"
    and refl: "\<And>d. R d d"
  shows "generateRandPoint_loop randbelow Path points r ds = (e, r', ds') \<Longrightarrow> list_all2 R ds ds'"
proof (induction ds arbitrary: r ds' e r')
  case Nil
  then show ?case by simp
next
  case (Cons d ds)
  obtain res r1 where s: "sample_district randbelow Path points r d = (res, r1)"
    by (cases "sample_district randbelow Path points r d")
  show ?case
  proof (cases res)
    case (Inl err)
    with Cons.prems s have "ds' = d # ds" by simp
    then show ?thesis by (simp add: refl list_all2_refl)
  next
    case (Inr d')
    obtain e2 r2 rest' where l: "generateRandPoint_loop randbelow Path points r1 ds = (e2, r2, rest')"
      by (cases "generateRandPoint_loop randbelow Path points r1 ds")
    with Cons.prems s Inr have "ds' = d' # rest'" by simp
    moreover from s Inr have "R d d'" by (simp add: step)
    moreover from Cons.IH [OF l] have "list_all2 R ds rest'" .
    ultimately show ?thesis by simp
  qed
qed

lemma generateRandPoint_unfold:
  "generateRandPoint randbelow Path points (r, self) = (e, r', self') \<longleftrightarrow>
   (\<exists>ds'. generateRandPoint_loop randbelow Path points r (districts self) = (e, r', ds') \<and>
      self' = self\<lparr>districts := ds'\<rparr>)"
  by (cases "generateRandPoint_loop randbelow Path points r (districts self)")
    (auto simp: generateRandPoint_def)

section \<open>Facts about the sampler\<close>

lemma sample_district_frame:
  assumes "sample_district randbelow Path points r d = (Inr d', r')"
  shows "(\<not> coordinates_ok (coordinates d) \<longrightarrow> d' = d) \<and>
         d' = d\<lparr>randomLat := randomLat d', randomLong := randomLong d'\<rparr>"
  using sample_district_cases [OF assms] by auto

lemma generateRandPoint_loop_frame:
  assumes "generateRandPoint_loop randbelow Path points r ds = (e, r', ds')"
  shows "list_all2 (\<lambda>d d'. (\<not> coordinates_ok (coordinates d) \<longrightarrow> d' = d) \<and>
           d' = d\<lparr>randomLat := randomLat d', randomLong := randomLong d'\<rparr>) ds ds'"
  by (rule generateRandPoint_loop_rel [OF _ _ assms]) (simp_all add: sample_district_frame)

lemma frame_fields:
  assumes "d' = d\<lparr>randomLat := lat, randomLong := lon\<rparr>"
  shows "coordinates d' = coordinates d \<and> holcGrade d' = holcGrade d \<and>
     holcColor d' = holcColor d \<and> id' d' = id' d \<and> description d' = description d \<and>
     medIncome d' = medIncome d \<and> censusTract d' = censusTract d"
  using assms by simp

section \<open>What the sampler leaves alone\<close>

text \<open>
  C10. Whatever way \<^verbatim>\<open>generateRandPoint\<close> ends, the catalog has the same number of
  districts, and for each of them: if its \<^verbatim>\<open>coordinates\<close> is not a list whose elements
  are all lists of length two, the district is exactly as before (and the loop body
  leaves the generator alone too); in every case \<^verbatim>\<open>coordinates\<close>, \<^verbatim>\<open>holcGrade\<close>,
  \<^verbatim>\<open>holcColor\<close>, \<^verbatim>\<open>id\<close>, \<^verbatim>\<open>description\<close>, \<^verbatim>\<open>medIncome\<close> and
  \<^verbatim>\<open>censusTract\<close> are unchanged, so only \<^verbatim>\<open>randomLat\<close> and
  \<^verbatim>\<open>randomLong\<close> can differ.
\<close>

theorem generateRandPoint_frame:
  assumes "generateRandPoint randbelow Path points (r, self) = (e, r', self')"
  shows "length (districts self') = length (districts self) \<and>
     (\<forall>i < length (districts self).
        (\<not> coordinates_ok (coordinates (districts self ! i)) \<longrightarrow>
           districts self' ! i = districts self ! i) \<and>
        coordinates (districts self' ! i) = coordinates (districts self ! i) \<and>
        holcGrade (districts self' ! i) = holcGrade (districts self ! i) \<and>
        holcColor (districts self' ! i) = holcColor (districts self ! i) \<and>
        id' (districts self' ! i) = id' (districts self ! i) \<and>
        description (districts self' ! i) = description (districts self ! i) \<and>
        medIncome (districts self' ! i) = medIncome (districts self ! i) \<and>
        censusTract (districts self' ! i) = censusTract (districts self ! i)) \<and>
     (\<not> coordinates_ok (coordinates d) \<longrightarrow>
        sample_district randbelow Path points r0 d = (Inr d, r0))"
proof -
  from assms obtain ds' where
    loop: "generateRandPoint_loop randbelow Path points r (districts self) = (e, r', ds')" and
    self': "self' = self\<lparr>districts := ds'\<rparr>"
    by (auto simp: generateRandPoint_unfold)
  let ?R = "\<lambda>d d'. (\<not> coordinates_ok (coordinates d) \<longrightarrow> d' = d) \<and>
           d' = d\<lparr>randomLat := randomLat d', randomLong := randomLong d'\<rparr>"
  from generateRandPoint_loop_frame [OF loop] have rel: "list_all2 ?R (districts self) ds'" .
  then have len: "length ds' = length (districts self)"
    by (simp add: list_all2_lengthD)
  have each: "?R (districts self ! i) (ds' ! i)" if "i < length (districts self)" for i
    using rel that by (simp add: list_all2_conv_all_nth)
  have fields: "(\<not> coordinates_ok (coordinates (districts self ! i)) \<longrightarrow>
           ds' ! i = districts self ! i) \<and>
        coordinates (ds' ! i) = coordinates (districts self ! i) \<and>
        holcGrade (ds' ! i) = holcGrade (districts self ! i) \<and>
        holcColor (ds' ! i) = holcColor (districts self ! i) \<and>
        id' (ds' ! i) = id' (districts self ! i) \<and>
        description (ds' ! i) = description (districts self ! i) \<and>
        medIncome (ds' ! i) = medIncome (districts self ! i) \<and>
        censusTract (ds' ! i) = censusTract (districts self ! i)"
    if i: "i < length (districts self)" for i
  proof -
    from each [OF i] have skip: "\<not> coordinates_ok (coordinates (districts self ! i)) \<longrightarrow>
           ds' ! i = districts self ! i"
      and upd: "ds' ! i = (districts self ! i)\<lparr>randomLat := randomLat (ds' ! i),
          randomLong := randomLong (ds' ! i)\<rparr>"
      by blast+
    from skip frame_fields [OF upd] show ?thesis by blast
  qed
  show ?thesis
    using len fields self' by (simp add: sample_district_skip)
qed

lemma coordinates_ok_example_ring: "coordinates_ok example_ring"
  by (simp add: coordinates_ok_def example_ring_def)

lemma example_ring_neq: "example_ring \<noteq> JArr []" "example_ring \<noteq> JNull"
  "JArr [JArr [JNum 7, JNum 7], JArr [JNum 8, JNum 7], JArr [JNum 8, JNum 8]] \<noteq> example_ring"
  by (simp_all add: example_ring_def)

lemma example_valid_points:
  "filter in_square example_points = [(1, 1), (1 / 2, 3 / 2)]"
  by (simp add: in_square_def example_points_def)

lemma example_sample_A:
  "sample_district example_randbelow example_Path example_points 17
     (example_district ''A'' ''A1'' ''darkgreen'') =
   (Inr ((example_district ''A'' ''A1'' ''darkgreen'')
      \<lparr>randomLong := Some (1 / 2), randomLat := Some (3 / 2)\<rparr>), 18)"
proof -
  have "length (filter in_square example_points) = 2"
    by (simp add: example_valid_points)
  then have "example_randbelow 17 (length (filter in_square example_points)) = (1, 18)"
    by (simp add: example_randbelow_def)
  from sample_district_draw [of "example_district ''A'' ''A1'' ''darkgreen''" example_Path
      in_square example_randbelow 17 example_points 1 18, OF _ _ this]
  show ?thesis
    by (simp add: example_district_def coordinates_ok_example_ring example_Path_def
        example_valid_points)
qed

lemma example_run:
  "generateRandPoint example_randbelow example_Path example_points (17, example_catalog) =
   (None, 18,
    \<lparr>districts = [(example_district ''A'' ''A1'' ''darkgreen'')
         \<lparr>randomLong := Some (1 / 2), randomLat := Some (3 / 2)\<rparr>,
        (example_district ''B'' ''B2'' ''cornflowerblue'')\<lparr>coordinates := JNull\<rparr>,
        (example_district ''D'' ''D3'' ''maroon'')\<lparr>coordinates :=
           JArr [JArr [JNum 7, JNum 7], JArr [JNum 8, JNum 7], JArr [JNum 8, JNum 8]]\<rparr>]\<rparr>)"
proof -
  have b: "sample_district example_randbelow example_Path example_points 18
      ((example_district ''B'' ''B2'' ''cornflowerblue'')\<lparr>coordinates := JNull\<rparr>) =
      (Inr ((example_district ''B'' ''B2'' ''cornflowerblue'')\<lparr>coordinates := JNull\<rparr>), 18)"
    by (simp add: sample_district_skip coordinates_ok_def)
  have d: "sample_district example_randbelow example_Path example_points 18
      ((example_district ''D'' ''D3'' ''maroon'')\<lparr>coordinates :=
           JArr [JArr [JNum 7, JNum 7], JArr [JNum 8, JNum 7], JArr [JNum 8, JNum 8]]\<rparr>) =
      (Inr ((example_district ''D'' ''D3'' ''maroon'')\<lparr>coordinates :=
           JArr [JArr [JNum 7, JNum 7], JArr [JNum 8, JNum 7], JArr [JNum 8, JNum 8]]\<rparr>), 18)"
    by (rule sample_district_empty [where polygon_path = "\<lambda>q. False"])
      (simp_all add: example_Path_def example_ring_neq)
  show ?thesis
    by (simp add: generateRandPoint_def example_catalog_def example_sample_A b d)
qed

theorem generateRandPoint_frame_witness:
  "generateRandPoint example_randbelow example_Path example_points (17, example_catalog) =
   (None, 18,
    \<lparr>districts = [(example_district ''A'' ''A1'' ''darkgreen'')
         \<lparr>randomLong := Some (1 / 2), randomLat := Some (3 / 2)\<rparr>,
        (example_district ''B'' ''B2'' ''cornflowerblue'')\<lparr>coordinates := JNull\<rparr>,
        (example_district ''D'' ''D3'' ''maroon'')\<lparr>coordinates :=
           JArr [JArr [JNum 7, JNum 7], JArr [JNum 8, JNum 7], JArr [JNum 8, JNum 8]]\<rparr>]\<rparr>) \<and>
   \<not> coordinates_ok (coordinates (districts example_catalog ! 1)) \<and>
   coordinates_ok (coordinates (districts example_catalog ! 0)) \<and>
   holcGrade ((example_district ''A'' ''A1'' ''darkgreen'')
         \<lparr>randomLong := Some (1 / 2), randomLat := Some (3 / 2)\<rparr>) =
     holcGrade (districts example_catalog ! 0) \<and>
   sample_district example_randbelow example_Path example_points 18
     (districts example_catalog ! 1) = (Inr (districts example_catalog ! 1), 18)"
proof -
  note frame = generateRandPoint_frame [OF example_run, of "districts example_catalog ! 1" 18]
  have len: "0 < length (districts example_catalog)"
    by (simp add: example_catalog_def)
  have bad: "\<not> coordinates_ok (coordinates (districts example_catalog ! 1))"
    by (simp add: example_catalog_def coordinates_ok_def)
  have ok: "coordinates_ok (coordinates (districts example_catalog ! 0))"
    by (simp add: example_catalog_def example_district_def coordinates_ok_example_ring)
  from frame len have "holcGrade ((example_district ''A'' ''A1'' ''darkgreen'')
         \<lparr>randomLong := Some (1 / 2), randomLat := Some (3 / 2)\<rparr>) =
     holcGrade (districts example_catalog ! 0)"
    by fastforce
  moreover from frame bad
  have "sample_district example_randbelow example_Path example_points 18
     (districts example_catalog ! 1) = (Inr (districts example_catalog ! 1), 18)"
    by blast
  ultimately show ?thesis
    using example_run bad ok by simp
qed

section \<open>Districts without an interior grid point\<close>






section \<open>Two runs of the sampler\<close>

lemma sample_district_agree:
  assumes "coordinates d1 = coordinates d2"
    and "randomLat d1 = randomLat d2" and "randomLong d1 = randomLong d2"
    and "sample_district randbelow Path points r d1 = (res1, r1)"
    and "sample_district randbelow Path points r d2 = (res2, r2)"
  shows "r1 = r2 \<and>
     (case res1 of
        Inl e1 \<Rightarrow> res2 = Inl e1
      | Inr a \<Rightarrow> (\<exists>b. res2 = Inr b \<and> coordinates a = coordinates b \<and>
          randomLat a = randomLat b \<and> randomLong a = randomLong b))"
  using assms
  by (auto simp: sample_district_def Let_def split: if_splits sum.splits prod.splits)

lemma generateRandPoint_loop_agree:
  assumes "map coordinates ds1 = map coordinates ds2"
    and "map randomLat ds1 = map randomLat ds2"
    and "map randomLong ds1 = map randomLong ds2"
    and "generateRandPoint_loop randbelow Path points r ds1 = (e1, r1, ds1')"
    and "generateRandPoint_loop randbelow Path points r ds2 = (e2, r2, ds2')"
  shows "e1 = e2 \<and> r1 = r2 \<and> map randomLat ds1' = map randomLat ds2' \<and>
     map randomLong ds1' = map randomLong ds2'"
  using assms
proof (induction ds1 arbitrary: ds2 r e1 r1 ds1' e2 r2 ds2')
  case Nil
  then show ?case by auto
next
  case (Cons d1 ds1)
  from Cons.prems(1) obtain d2 rest2 where ds2: "ds2 = d2 # rest2"
    and c: "coordinates d1 = coordinates d2" and cs: "map coordinates ds1 = map coordinates rest2"
    by (cases ds2) auto
  from Cons.prems(2,3) ds2 have
    p: "randomLat d1 = randomLat d2" "randomLong d1 = randomLong d2" and
    ps: "map randomLat ds1 = map randomLat rest2" "map randomLong ds1 = map randomLong rest2"
    by auto
  obtain res1 s1 where a: "sample_district randbelow Path points r d1 = (res1, s1)"
    by (cases "sample_district randbelow Path points r d1")
  obtain res2 s2 where b: "sample_district randbelow Path points r d2 = (res2, s2)"
    by (cases "sample_district randbelow Path points r d2")
  from sample_district_agree [OF c p a b] have s: "s1 = s2" and
    rel: "case res1 of Inl e1 \<Rightarrow> res2 = Inl e1
      | Inr a \<Rightarrow> (\<exists>b. res2 = Inr b \<and> coordinates a = coordinates b \<and>
          randomLat a = randomLat b \<and> randomLong a = randomLong b)"
    by blast+
  show ?case
  proof (cases res1)
    case (Inl err)
    with rel have "res2 = Inl err" by simp
    with Inl a b s Cons.prems(4,5) ds2 p ps show ?thesis by auto
  next
    case (Inr d1')
    with rel obtain d2' where r2: "res2 = Inr d2'" and
      q: "randomLat d1' = randomLat d2'" "randomLong d1' = randomLong d2'"
      by auto
    obtain f1 t1 rest1' where l1: "generateRandPoint_loop randbelow Path points s1 ds1 = (f1, t1, rest1')"
      by (cases "generateRandPoint_loop randbelow Path points s1 ds1")
    obtain f2 t2 rest2' where l2: "generateRandPoint_loop randbelow Path points s1 rest2 = (f2, t2, rest2')"
      by (cases "generateRandPoint_loop randbelow Path points s1 rest2")
    from Cons.IH [OF cs ps l1 l2] have
      ih: "f1 = f2 \<and> t1 = t2 \<and> map randomLat rest1' = map randomLat rest2' \<and>
        map randomLong rest1' = map randomLong rest2'" .
    from Cons.prems(4) a Inr l1 have "e1 = f1" "r1 = t1" "ds1' = d1' # rest1'" by simp_all
    moreover from Cons.prems(5) ds2 b r2 s l2 have "e2 = f2" "r2 = t2" "ds2' = d2' # rest2'"
      by simp_all
    ultimately show ?thesis using ih q by simp
  qed
qed

text \<open>
  C6. Two runs of the sampler, each from the generator state that seeding with 17
  leaves, over the same grid and over catalogs whose districts have the same boundaries
  and the same points before the run (the same list of districts, in particular), end
  the same way, leave the generator in the same state and give every district the same
  \<^verbatim>\<open>randomLat\<close> and \<^verbatim>\<open>randomLong\<close>. No other field of a district and nothing else
  has a say in the points. The line the sampler prints is outside the model.
\<close>

theorem generateRandPoint_deterministic:
  assumes "map coordinates (districts self1) = map coordinates (districts self2)"
    and "map randomLat (districts self1) = map randomLat (districts self2)"
    and "map randomLong (districts self1) = map randomLong (districts self2)"
    and "seeded_generateRandPoint seed randbelow Path points self1 = (e1, r1, self1')"
    and "seeded_generateRandPoint seed randbelow Path points self2 = (e2, r2, self2')"
  shows "e1 = e2 \<and> r1 = r2 \<and>
     map randomLat (districts self1') = map randomLat (districts self2') \<and>
     map randomLong (districts self1') = map randomLong (districts self2')"
proof -
  from assms(4) obtain ds1' where
    l1: "generateRandPoint_loop randbelow Path points (seed 17) (districts self1) = (e1, r1, ds1')"
    and s1: "self1' = self1\<lparr>districts := ds1'\<rparr>"
    by (auto simp: seeded_generateRandPoint_def generateRandPoint_unfold)
  from assms(5) obtain ds2' where
    l2: "generateRandPoint_loop randbelow Path points (seed 17) (districts self2) = (e2, r2, ds2')"
    and s2: "self2' = self2\<lparr>districts := ds2'\<rparr>"
    by (auto simp: seeded_generateRandPoint_def generateRandPoint_unfold)
  from generateRandPoint_loop_agree [OF assms(1-3) l1 l2] s1 s2 show ?thesis
    by simp
qed

theorem generateRandPoint_deterministic_witness:
  "map coordinates (districts example_catalog) =
     map coordinates (districts example_catalog_enriched) \<and>
   map randomLat (districts example_catalog) =
     map randomLat (districts example_catalog_enriched) \<and>
   map randomLong (districts example_catalog) =
     map randomLong (districts example_catalog_enriched) \<and>
   (\<exists>self1'. seeded_generateRandPoint example_seed example_randbelow example_Path
        example_points example_catalog = (None, 18, self1') \<and>
      map randomLat (districts self1') = [Some (3 / 2), None, None] \<and>
      map randomLong (districts self1') = [Some (1 / 2), None, None]) \<and>
   (\<exists>self2'. seeded_generateRandPoint example_seed example_randbelow example_Path
        example_points example_catalog_enriched = (None, 18, self2') \<and>
      map randomLat (districts self2') = [Some (3 / 2), None, None] \<and>
      map randomLong (districts self2') = [Some (1 / 2), None, None])"
proof -
  have run: "seeded_generateRandPoint example_seed example_randbelow example_Path example_points
     example_catalog =
   (None, 18,
    \<lparr>districts = [(example_district ''A'' ''A1'' ''darkgreen'')
         \<lparr>randomLong := Some (1 / 2), randomLat := Some (3 / 2)\<rparr>,
        (example_district ''B'' ''B2'' ''cornflowerblue'')\<lparr>coordinates := JNull\<rparr>,
        (example_district ''D'' ''D3'' ''maroon'')\<lparr>coordinates :=
           JArr [JArr [JNum 7, JNum 7], JArr [JNum 8, JNum 7], JArr [JNum 8, JNum 8]]\<rparr>]\<rparr>)"
    using example_run by (simp add: seeded_generateRandPoint_def example_seed_def)
  have same: "map coordinates (districts example_catalog) =
       map coordinates (districts example_catalog_enriched)"
    "map randomLat (districts example_catalog) =
       map randomLat (districts example_catalog_enriched)"
    "map randomLong (districts example_catalog) =
       map randomLong (districts example_catalog_enriched)"
    by (simp_all add: example_catalog_enriched_def example_catalog_def)
  obtain e2 r2 self2' where other: "seeded_generateRandPoint example_seed example_randbelow
      example_Path example_points example_catalog_enriched = (e2, r2, self2')"
    by (cases "seeded_generateRandPoint example_seed example_randbelow
      example_Path example_points example_catalog_enriched")
  from generateRandPoint_deterministic [OF same run other]
  have "e2 = None" "r2 = 18"
    "map randomLat (districts self2') = [Some (3 / 2), None, None]"
    "map randomLong (districts self2') = [Some (1 / 2), None, None]"
    by (simp_all add: example_district_def)
  with other same run show ?thesis
    by (simp add: example_district_def)
qed

section \<open>Facts about the tract lookup\<close>

lemma fetchCensus_body_cases:
  assumes "fetchCensus_body fcc sent d = (res, sent')"
  shows "(res = Inr d \<or> (\<exists>e. res = Inl e) \<or> (\<exists>t. res = Inr (d\<lparr>censusTract := Some t\<rparr>))) \<and>
     (sent' = sent \<or> (\<exists>lat lon. sent' = sent @ [(lat, lon)]))"
  using assms
  by (auto simp: fetchCensus_body_def Let_def
      split: option.splits if_splits list.splits prod.splits)

lemma fetchCensus_loop_rel:
  assumes step: "\<And>sent d d' sent'. fetchCensus_body fcc sent d = (Inr d', sent') \<Longrightarrow> R d d'"
    and refl: "\<And>d. R d d"
  shows "fetchCensus_loop fcc sent ds = (e, sent', ds') \<Longrightarrow> list_all2 R ds ds'"
proof (induction ds arbitrary: sent ds' e sent')
  case Nil
  then show ?case by simp
next
  case (Cons d ds)
  obtain res s1 where s: "fetchCensus_body fcc sent d = (res, s1)"
    by (cases "fetchCensus_body fcc sent d")
  show ?case
  proof (cases res)
    case (Inl err)
    with Cons.prems s have "ds' = d # ds" by simp
    then show ?thesis by (simp add: refl list_all2_refl)
  next
    case (Inr d')
    obtain e2 s2 rest' where l: "fetchCensus_loop fcc s1 ds = (e2, s2, rest')"
      by (cases "fetchCensus_loop fcc s1 ds")
    with Cons.prems s Inr have "ds' = d' # rest'" by simp
    moreover from s Inr have "R d d'" by (simp add: step)
    moreover from Cons.IH [OF l] have "list_all2 R ds rest'" .
    ultimately show ?thesis by simp
  qed
qed

lemma fetchCensus_unfold:
  "fetchCensus fcc (sent, self) = (e, sent', self') \<longleftrightarrow>
   (\<exists>ds'. fetchCensus_loop fcc sent (districts self) = (e, sent', ds') \<and>
      self' = self\<lparr>districts := ds'\<rparr>)"
  by (cases "fetchCensus_loop fcc sent (districts self)") (auto simp: fetchCensus_def)

lemma fetchCensus_keeps_points:
  assumes "fetchCensus fcc (sent, self) = (e, sent', self')"
  shows "map coordinates (districts self') = map coordinates (districts self) \<and>
     map randomLat (districts self') = map randomLat (districts self) \<and>
     map randomLong (districts self') = map randomLong (districts self)"
proof -
  from assms obtain ds' where
    loop: "fetchCensus_loop fcc sent (districts self) = (e, sent', ds')" and
    self': "self' = self\<lparr>districts := ds'\<rparr>"
    by (auto simp: fetchCensus_unfold)
  have "list_all2 (\<lambda>d d'. coordinates d' = coordinates d \<and> randomLat d' = randomLat d \<and>
      randomLong d' = randomLong d) (districts self) ds'"
  proof (rule fetchCensus_loop_rel [OF _ _ loop])
    fix sent d d' sent'
    assume "fetchCensus_body fcc sent d = (Inr d', sent')"
    from fetchCensus_body_cases [OF this]
    show "coordinates d' = coordinates d \<and> randomLat d' = randomLat d \<and>
      randomLong d' = randomLong d"
      by auto
  qed simp
  then have "map coordinates ds' = map coordinates (districts self) \<and>
     map randomLat ds' = map randomLat (districts self) \<and>
     map randomLong ds' = map randomLong (districts self)"
    by (induction rule: list_all2_induct) simp_all
  with self' show ?thesis by simp
qed

text \<open>One district costs one request at most: the loop body never asks twice.\<close>

lemma fetchCensus_loop_requests:
  "fetchCensus_loop fcc sent ds = (e, sent', ds') \<Longrightarrow> length sent' \<le> length sent + length ds"
proof (induction ds arbitrary: sent ds' e sent')
  case Nil
  then show ?case by simp
next
  case (Cons d ds)
  obtain res s1 where s: "fetchCensus_body fcc sent d = (res, s1)"
    by (cases "fetchCensus_body fcc sent d")
  from fetchCensus_body_cases [OF s] have one: "length s1 \<le> length sent + 1"
    by auto
  show ?case
  proof (cases res)
    case (Inl err)
    with Cons.prems s one show ?thesis by auto
  next
    case (Inr d')
    obtain e2 s2 rest' where l: "fetchCensus_loop fcc s1 ds = (e2, s2, rest')"
      by (cases "fetchCensus_loop fcc s1 ds")
    from Cons.IH [OF l] have "length s2 \<le> length s1 + length ds" .
    moreover from Cons.prems s Inr l have "sent' = s2" by simp
    ultimately show ?thesis using one by simp
  qed
qed

section \<open>The tract lookup does not retry\<close>

text \<open>
  C1. The claim has \<^verbatim>\<open>fetchCensus\<close> repeat the request until the status is 200, so
  that a district ends with its tract as soon as the service answers. The docstring of
  the method asks for the same loop. The code sends one request per district and goes
  on. Here the service refuses the first request with status 503 and would answer every
  later one with status 200: the call returns with one request sent, for the
  district's \<^verbatim>\<open>lat\<close> and \<^verbatim>\<open>lon\<close>, and the district still has no tract, although the
  second request would have set it.
\<close>

theorem fetchCensus_gives_up_after_one_request:
  "fetchCensus example_fcc ([], \<lparr>districts = [example_sampled]\<rparr>) =
     (None, [(3 / 2, 1 / 2)], \<lparr>districts = [example_sampled]\<rparr>) \<and>
   randomLat example_sampled = Some (3 / 2) \<and> randomLong example_sampled = Some (1 / 2) \<and>
   status_code (example_fcc 0 (3 / 2) (1 / 2)) = 503 \<and>
   censusTract example_sampled = None \<and>
   fetchCensus_body example_fcc [(3 / 2, 1 / 2)] example_sampled =
     (Inr (example_sampled\<lparr>censusTract := Some ''163512100''\<rparr>),
      [(3 / 2, 1 / 2), (3 / 2, 1 / 2)])"
  by (simp add: fetchCensus_def fetchCensus_body_def example_fcc_def example_sampled_def
      example_district_def)

section \<open>Facts about the income lookup\<close>

lemma income_item_ok:
  assumes "4 \<le> length item"
    and "item ! 0 = ''-666666666'' \<or> py_int (item ! 0) \<noteq> None"
  shows "income_item py_int item =
     Inr (item ! 2 @ item ! 3,
          if item ! 0 = ''-666666666'' then 0 else the (py_int (item ! 0)))"
  using assms by (auto simp: income_item_def)

lemma income_dict_ok:
  assumes "\<forall>item \<in> set rows.
     4 \<le> length item \<and> (item ! 0 = ''-666666666'' \<or> py_int (item ! 0) \<noteq> None)"
  shows "income_dict py_int rows acc =
     Inr (fold (\<lambda>item. AList.update (item ! 2 @ item ! 3)
            (if item ! 0 = ''-666666666'' then 0 else the (py_int (item ! 0)))) rows acc)"
  using assms
proof (induction rows arbitrary: acc)
  case Nil
  then show ?case by simp
next
  case (Cons item rows)
  then have "income_item py_int item =
     Inr (item ! 2 @ item ! 3,
          if item ! 0 = ''-666666666'' then 0 else the (py_int (item ! 0)))"
    by (simp add: income_item_ok)
  with Cons show ?case by simp
qed

text \<open>The dict built row by row holds, for each key, the value of the last row with it.\<close>

lemma map_of_fold_update:
  "map_of (fold (\<lambda>item. AList.update (k item) (v item)) rows acc) t =
     (case filter (\<lambda>item. k item = t) (rev rows) of
        [] \<Rightarrow> map_of acc t
      | item # others \<Rightarrow> Some (v item))"
proof (induction rows arbitrary: acc)
  case Nil
  then show ?case by simp
next
  case (Cons x rows)
  show ?case
    by (simp add: Cons.IH update_conv' split: list.splits)
qed

lemma assign_income_fst:
  "fst (assign_income income_data d) =
     d\<lparr>medIncome := Some (case censusTract d of
          None \<Rightarrow> 0
        | Some t \<Rightarrow> (case map_of income_data t of None \<Rightarrow> 0 | Some v \<Rightarrow> v))\<rparr>"
  by (simp add: assign_income_def split: option.splits Option.bind_splits)

lemma fetchIncome_keeps_points:
  assumes "fetchIncome py_int response (out, self) = (e, out', self')"
  shows "map coordinates (districts self') = map coordinates (districts self) \<and>
     map randomLat (districts self') = map randomLat (districts self) \<and>
     map randomLong (districts self') = map randomLong (districts self)"
proof -
  have "coordinates (fst (assign_income m d)) = coordinates d \<and>
      randomLat (fst (assign_income m d)) = randomLat d \<and>
      randomLong (fst (assign_income m d)) = randomLong d" for m d
    by (simp add: assign_income_fst)
  with assms show ?thesis
    by (auto simp: fetchIncome_def Let_def comp_def split: if_splits option.splits sum.splits)
qed

lemma fetchIncome_built:
  assumes "status_code response = 200"
    and "json_body response = Some data"
    and "income_dict py_int (drop 1 data) [] = Inr income_data"
  shows "fetchIncome py_int response (out, self) =
       (None,
        out @ [PrintIncomeData income_data] @
          map (\<lambda>d. snd (assign_income income_data d)) (districts self),
        self\<lparr>districts :=
          map (\<lambda>d. d\<lparr>medIncome := Some (case censusTract d of
                  None \<Rightarrow> 0
                | Some t \<Rightarrow> (case map_of income_data t of None \<Rightarrow> 0 | Some v \<Rightarrow> v))\<rparr>)
            (districts self)\<rparr>)"
  using assms by (simp add: fetchIncome_def Let_def comp_def assign_income_fst)

section \<open>Incomes from a successful response\<close>

text \<open>
  C4. Let the batch response have status 200 and a body whose rows after the header
  have their four fields and a value that is the sentinel or a string \<^verbatim>\<open>int\<close>
  accepts. Then \<^verbatim>\<open>fetchIncome\<close> returns normally. The mapping it builds gives a
  tract, written as county and tract code, the value of the last row for it: 0 when
  that value is the sentinel \<^verbatim>\<open>-666666666\<close>, the integer otherwise, and nothing when
  no row has the tract. Every district gets the mapped income of its tract, and 0 when
  its tract is not in the mapping or was never set; nothing but \<^verbatim>\<open>medIncome\<close>
  changes.
\<close>

theorem fetchIncome_assigns:
  assumes "status_code response = 200"
    and "json_body response = Some data"
    and "\<forall>item \<in> set (drop 1 data).
       4 \<le> length item \<and> (item ! 0 = ''-666666666'' \<or> py_int (item ! 0) \<noteq> None)"
  shows "\<exists>income_data.
     income_dict py_int (drop 1 data) [] = Inr income_data \<and>
     (\<forall>t. map_of income_data t =
        (case filter (\<lambda>item. item ! 2 @ item ! 3 = t) (rev (drop 1 data)) of
           [] \<Rightarrow> None
         | item # others \<Rightarrow>
             Some (if item ! 0 = ''-666666666'' then 0 else the (py_int (item ! 0))))) \<and>
     fetchIncome py_int response (out, self) =
       (None,
        out @ [PrintIncomeData income_data] @
          map (\<lambda>d. snd (assign_income income_data d)) (districts self),
        self\<lparr>districts :=
          map (\<lambda>d. d\<lparr>medIncome := Some (case censusTract d of
                  None \<Rightarrow> 0
                | Some t \<Rightarrow> (case map_of income_data t of None \<Rightarrow> 0 | Some v \<Rightarrow> v))\<rparr>)
            (districts self)\<rparr>)"
proof -
  let ?income_data = "fold (\<lambda>item. AList.update (item ! 2 @ item ! 3)
            (if item ! 0 = ''-666666666'' then 0 else the (py_int (item ! 0)))) (drop 1 data) []"
  from income_dict_ok [OF assms(3)]
  have built: "income_dict py_int (drop 1 data) [] = Inr ?income_data" .
  have mapping: "map_of ?income_data t =
        (case filter (\<lambda>item. item ! 2 @ item ! 3 = t) (rev (drop 1 data)) of
           [] \<Rightarrow> None
         | item # others \<Rightarrow>
             Some (if item ! 0 = ''-666666666'' then 0 else the (py_int (item ! 0))))" for t
    by (simp add: map_of_fold_update split: list.splits)
  from fetchIncome_built [OF assms(1,2) built]
  have "fetchIncome py_int response (out, self) =
       (None,
        out @ [PrintIncomeData ?income_data] @
          map (\<lambda>d. snd (assign_income ?income_data d)) (districts self),
        self\<lparr>districts :=
          map (\<lambda>d. d\<lparr>medIncome := Some (case censusTract d of
                  None \<Rightarrow> 0
                | Some t \<Rightarrow> (case map_of ?income_data t of None \<Rightarrow> 0 | Some v \<Rightarrow> v))\<rparr>)
            (districts self)\<rparr>)" .
  with built mapping show ?thesis by blast
qed

theorem fetchIncome_assigns_witness:
  "status_code example_acs = 200 \<and>
   json_body example_acs = Some [[''B19013_001E'', ''state'', ''county'', ''tract''],
        [''41000'', ''26'', ''163'', ''512100''],
        [''-666666666'', ''26'', ''163'', ''985000'']] \<and>
   (\<exists>msgs. fetchIncome example_py_int example_acs
     ([], \<lparr>districts = [example_enriched (Some ''163512100''),
        example_enriched (Some ''163985000''), example_enriched (Some ''163000000''),
        example_enriched None]\<rparr>) =
     (None, msgs,
      \<lparr>districts = [(example_enriched (Some ''163512100''))\<lparr>medIncome := Some 41000\<rparr>,
        (example_enriched (Some ''163985000''))\<lparr>medIncome := Some 0\<rparr>,
        (example_enriched (Some ''163000000''))\<lparr>medIncome := Some 0\<rparr>,
        (example_enriched None)\<lparr>medIncome := Some 0\<rparr>]\<rparr>))"
proof -
  have status: "status_code example_acs = 200"
    by (simp add: example_acs_def)
  have body: "json_body example_acs = Some [[''B19013_001E'', ''state'', ''county'', ''tract''],
        [''41000'', ''26'', ''163'', ''512100''],
        [''-666666666'', ''26'', ''163'', ''985000'']]"
    by (simp add: example_acs_def)
  have rows: "\<forall>item \<in> set (drop 1 [[''B19013_001E'', ''state'', ''county'', ''tract''],
        [''41000'', ''26'', ''163'', ''512100''],
        [''-666666666'', ''26'', ''163'', ''985000'']]).
       4 \<le> length item \<and> (item ! 0 = ''-666666666'' \<or> example_py_int (item ! 0) \<noteq> None)"
    by (simp add: example_py_int_def)
  from fetchIncome_assigns [OF status body rows, of "[]"
      "\<lparr>districts = [example_enriched (Some ''163512100''),
        example_enriched (Some ''163985000''), example_enriched (Some ''163000000''),
        example_enriched None]\<rparr>"]
  obtain income_data where
    m: "\<forall>t. map_of income_data t =
        (case filter (\<lambda>item. item ! 2 @ item ! 3 = t)
           (rev (drop 1 [[''B19013_001E'', ''state'', ''county'', ''tract''],
              [''41000'', ''26'', ''163'', ''512100''],
              [''-666666666'', ''26'', ''163'', ''985000'']])) of
           [] \<Rightarrow> None
         | item # others \<Rightarrow>
             Some (if item ! 0 = ''-666666666'' then 0 else the (example_py_int (item ! 0))))"
    and run: "fetchIncome example_py_int example_acs
     ([], \<lparr>districts = [example_enriched (Some ''163512100''),
        example_enriched (Some ''163985000''), example_enriched (Some ''163000000''),
        example_enriched None]\<rparr>) =
       (None,
        [] @ [PrintIncomeData income_data] @
          map (\<lambda>d. snd (assign_income income_data d))
            (districts \<lparr>districts = [example_enriched (Some ''163512100''),
        example_enriched (Some ''163985000''), example_enriched (Some ''163000000''),
        example_enriched None]\<rparr>),
        \<lparr>districts = [example_enriched (Some ''163512100''),
        example_enriched (Some ''163985000''), example_enriched (Some ''163000000''),
        example_enriched None]\<rparr>\<lparr>districts :=
          map (\<lambda>d. d\<lparr>medIncome := Some (case censusTract d of
                  None \<Rightarrow> 0
                | Some t \<Rightarrow> (case map_of income_data t of None \<Rightarrow> 0 | Some v \<Rightarrow> v))\<rparr>)
            (districts \<lparr>districts = [example_enriched (Some ''163512100''),
        example_enriched (Some ''163985000''), example_enriched (Some ''163000000''),
        example_enriched None]\<rparr>)\<rparr>)"
    by blast
  have t1: "map_of income_data ''163512100'' = Some 41000"
    and t2: "map_of income_data ''163985000'' = Some 0"
    and t3: "map_of income_data ''163000000'' = None"
    by (simp_all add: m example_py_int_def)
  from run t1 t2 t3 status body show ?thesis
    by (simp add: example_enriched_def)
qed

section \<open>A failed income lookup\<close>

text \<open>
  C8. When the status of the batch response is not 200, \<^verbatim>\<open>fetchIncome\<close> returns
  normally, prints one line that reports the status and the text of the response, and
  leaves the catalog as it was: every district keeps its \<^verbatim>\<open>medIncome\<close>, set or
  unset, and every other field.
\<close>

theorem fetchIncome_failure:
  assumes "status_code response \<noteq> 200"
  shows "fetchIncome py_int response (out, self) =
     (None, out @ [Failed (status_code response) (text' response)], self)"
  using assms by (simp add: fetchIncome_def)

theorem fetchIncome_failure_witness:
  "status_code example_acs_down \<noteq> 200 \<and>
   fetchIncome example_py_int example_acs_down
     ([], \<lparr>districts = [example_enriched (Some ''163512100''),
        (example_enriched None)\<lparr>medIncome := Some 41000\<rparr>]\<rparr>) =
     (None, [Failed 500 ''Internal Server Error''],
      \<lparr>districts = [example_enriched (Some ''163512100''),
        (example_enriched None)\<lparr>medIncome := Some 41000\<rparr>]\<rparr>)"
proof -
  have down: "status_code example_acs_down \<noteq> 200"
    by (simp add: example_acs_down_def)
  from fetchIncome_failure [OF down, of example_py_int "[]"
      "\<lparr>districts = [example_enriched (Some ''163512100''),
        (example_enriched None)\<lparr>medIncome := Some 41000\<rparr>]\<rparr>"] down
  show ?thesis by (simp add: example_acs_down_def)
qed

section \<open>The sampled point stays inside\<close>

lemma point_ok_same:
  "coordinates d' = coordinates d \<Longrightarrow> randomLat d' = randomLat d \<Longrightarrow>
   randomLong d' = randomLong d \<Longrightarrow> point_ok Path points d' = point_ok Path points d"
  by (simp add: point_ok_def split: option.splits)

lemma point_ok_unset:
  "randomLat d = None \<Longrightarrow> point_ok Path points d"
  by (simp add: point_ok_def split: option.splits)

lemma point_ok_maps:
  assumes c: "map coordinates ds' = map coordinates ds"
    and la: "map randomLat ds' = map randomLat ds"
    and lo: "map randomLong ds' = map randomLong ds"
    and inv: "\<forall>d \<in> set ds. point_ok Path points d"
  shows "\<forall>d \<in> set ds'. point_ok Path points d"
proof
  fix d'
  assume "d' \<in> set ds'"
  then obtain i where i: "i < length ds'" and d': "d' = ds' ! i"
    by (auto simp: in_set_conv_nth)
  from c have len: "length ds' = length ds"
    by (rule map_eq_imp_length_eq)
  from c i len have "coordinates (ds' ! i) = coordinates (ds ! i)"
    by (metis nth_map)
  moreover from la i len have "randomLat (ds' ! i) = randomLat (ds ! i)"
    by (metis nth_map)
  moreover from lo i len have "randomLong (ds' ! i) = randomLong (ds ! i)"
    by (metis nth_map)
  ultimately have "point_ok Path points (ds' ! i) = point_ok Path points (ds ! i)"
    by (rule point_ok_same)
  with inv i len d' show "point_ok Path points d'"
    by simp
qed

text \<open>The loop body either leaves a district alone or gives it an inside grid point.\<close>

lemma sample_district_point:
  assumes "sample_district randbelow Path points r d = (Inr d', r')"
  shows "d' = d \<or>
     (\<exists>q polygon_path. Path (coordinates d) = Inr polygon_path \<and> q \<in> set points \<and>
        polygon_path q \<and> d' = d\<lparr>randomLong := Some (fst q), randomLat := Some (snd q)\<rparr>)"
proof -
  from sample_district_cases [OF assms]
  consider "d' = d"
    | polygon_path k where "Path (coordinates d) = Inr polygon_path"
        "k < length (filter polygon_path points)"
        "d' = d\<lparr>randomLong := Some (fst (filter polygon_path points ! k)),
                randomLat := Some (snd (filter polygon_path points ! k))\<rparr>"
    by auto
  then show ?thesis
  proof cases
    case 1
    then show ?thesis by simp
  next
    case (2 polygon_path k)
    from 2(2) have "filter polygon_path points ! k \<in> set (filter polygon_path points)"
      by (rule nth_mem)
    then have "filter polygon_path points ! k \<in> set points"
      "polygon_path (filter polygon_path points ! k)"
      by simp_all
    with 2(1,3) show ?thesis by blast
  qed
qed

lemma generateRandPoint_loop_point:
  assumes "generateRandPoint_loop randbelow Path points r ds = (e, r', ds')"
  shows "list_all2 (\<lambda>d d'. d' = d \<or>
     (\<exists>q polygon_path. Path (coordinates d) = Inr polygon_path \<and> q \<in> set points \<and>
        polygon_path q \<and> d' = d\<lparr>randomLong := Some (fst q), randomLat := Some (snd q)\<rparr>))
     ds ds'"
proof (rule generateRandPoint_loop_rel [OF _ _ assms])
  fix r d d' r'
  assume "sample_district randbelow Path points r d = (Inr d', r')"
  then show "d' = d \<or>
     (\<exists>q polygon_path. Path (coordinates d) = Inr polygon_path \<and> q \<in> set points \<and>
        polygon_path q \<and> d' = d\<lparr>randomLong := Some (fst q), randomLat := Some (snd q)\<rparr>)"
    by (rule sample_district_point)
next
  fix d :: DetroitDistrict
  show "d = d \<or>
     (\<exists>q polygon_path. Path (coordinates d) = Inr polygon_path \<and> q \<in> set points \<and>
        polygon_path q \<and> d = d\<lparr>randomLong := Some (fst q), randomLat := Some (snd q)\<rparr>)"
    by simp
qed

lemma assigned_point_ok:
  assumes "Path (coordinates d) = Inr polygon_path" and "q \<in> set points" and "polygon_path q"
  shows "point_ok Path points (d\<lparr>randomLong := Some (fst q), randomLat := Some (snd q)\<rparr>)"
  using assms by (simp add: point_ok_def)

lemma createDistricts_extends:
  assumes "createDistricts fs json_load self fileName = (e, self')"
  shows "\<exists>new. districts self' = districts self @ new \<and>
     (\<forall>d \<in> set new. randomLat d = None \<and> randomLong d = None)"
proof -
  have same: ?thesis if "self' = self"
    using that by (intro exI [of _ "[]"]) simp
  show ?thesis
  proof (cases "fs fileName")
    case None
    with assms have "self' = self" by (simp add: createDistricts_def open_read_def)
    then show ?thesis by (rule same)
  next
    case (Some contents)
    show ?thesis
    proof (cases "json_load contents")
      case None
      with assms Some have "self' = self" by (simp add: createDistricts_def open_read_def)
      then show ?thesis by (rule same)
    next
      case parsed: (Some data)
      show ?thesis
      proof (cases "bind_err (getitem data ''features'') py_iter")
        case (Inl err)
        with assms Some parsed have "self' = self"
          by (simp add: createDistricts_def open_read_def)
        then show ?thesis by (rule same)
      next
        case (Inr features)
        obtain e1 ds where loop: "createDistricts_loop (districts self) features = (e1, ds)"
          by (cases "createDistricts_loop (districts self) features")
        with assms Some parsed Inr have self': "self' = self\<lparr>districts := ds\<rparr>"
          by (simp add: createDistricts_def open_read_def)
        from createDistricts_loop_shape [OF loop] obtain good new where
          good: "list_all2 (\<lambda>g d. district_of_feature g = Inr d) good new" and
          ds: "ds = districts self @ new"
          by blast
        have "randomLat d = None \<and> randomLong d = None" if d: "d \<in> set new" for d
        proof -
          from list_all2_source [OF good d] obtain g where "district_of_feature g = Inr d"
            by blast
          from district_of_feature_fields [OF this] show ?thesis by blast
        qed
        with self' ds show ?thesis by simp
      qed
    qed
  qed
qed

text \<open>
  Drawing index \<open>k\<close> selects the \<open>k\<close>-th inside grid point, and on a grid without
  repeated points the indices below the number of inside points and the inside points
  correspond one to one.
\<close>

lemma inside_points_bij:
  assumes "distinct points"
  shows "bij_betw (\<lambda>k. filter polygon_path points ! k) {..<length (filter polygon_path points)}
     {q \<in> set points. polygon_path q}"
proof -
  from assms have "distinct (filter polygon_path points)"
    by simp
  then have "bij_betw (\<lambda>k. filter polygon_path points ! k)
      {..<length (filter polygon_path points)} (set (filter polygon_path points))"
    by (rule bij_betw_nth) simp_all
  then show ?thesis by simp
qed

text \<open>The library's test on the square, and the share of the draws that give a point.\<close>

lemma example_square_vertices: "vertices_of [JArr [JNum 0, JNum 0], JArr [JNum 2, JNum 0],
    JArr [JNum 2, JNum 2], JArr [JNum 0, JNum 2]] = Inr example_square"
  by (simp add: bind_err_def example_square_def)

lemma crossings_Path_example_ring:
  "crossings_Path example_ring = Inr (point_in_path example_square)"
  by (simp add: crossings_Path_def example_ring_def example_square_vertices del: vertices_of.simps)

lemma example_edges:
  "polygon_edges example_square =
     [((0, 0), (2, 0)), ((2, 0), (2, 2)), ((2, 2), (0, 2)), ((0, 2), (0, 0))]"
  by (simp add: polygon_edges_def example_square_def)

lemma point_in_square_values:
  "point_in_path example_square (0, 1)" "\<not> point_in_path example_square (3, 3)"
  "point_in_path example_square (1, 1)" "point_in_path example_square (1 / 2, 3 / 2)"
  "\<not> point_in_path example_square (5, 5)" "\<not> point_in_path example_square (1, 0)"
  "point_in_path example_square (2, 1)" "point_in_path example_square (1, 2)"
  by (simp_all add: point_in_path_def example_edges edge_hit_def)

lemma on_boundary_example: "on_boundary example_square (0, 1)"
  by (simp add: on_boundary_def example_edges on_segment_def)

lemma example_edge_points_boundary:
  "list_all (\<lambda>q. on_boundary example_square q \<or> \<not> point_in_path example_square q)
     example_edge_points"
  by (simp add: example_edge_points_def point_in_square_values on_boundary_def example_edges
      on_segment_def)

lemma example_edge_valid:
  "filter (point_in_path example_square) example_edge_points = [(2, 1), (1, 2), (0, 1)]"
  by (simp add: example_edge_points_def point_in_square_values)

lemma example_edge_sample:
  "sample_district example_randbelow crossings_Path example_edge_points 17
     (example_district ''A'' ''A1'' ''darkgreen'') =
   (Inr ((example_district ''A'' ''A1'' ''darkgreen'')
      \<lparr>randomLong := Some 0, randomLat := Some 1\<rparr>), 18)"
proof -
  have "length (filter (point_in_path example_square) example_edge_points) = 3"
    by (simp add: example_edge_valid)
  then have "example_randbelow 17
      (length (filter (point_in_path example_square) example_edge_points)) = (2, 18)"
    by (simp add: example_randbelow_def)
  from sample_district_draw [where d = "example_district ''A'' ''A1'' ''darkgreen''"
      and Path = crossings_Path and polygon_path = "point_in_path example_square"
      and randbelow = example_randbelow and r = 17 and points = example_edge_points
      and k = 2 and r' = 18, OF _ _ this]
  show ?thesis
    by (simp add: example_district_def coordinates_ok_example_ring crossings_Path_example_ring
        example_edge_valid)
qed

lemma count_index:
  assumes "distinct xs" and "q \<in> set xs"
  shows "length (filter (\<lambda>k. xs ! k = q) [0..<length xs]) = 1"
proof -
  from assms(2) obtain i where i: "i < length xs" "xs ! i = q"
    by (auto simp: in_set_conv_nth)
  have "{k. k < length xs \<and> xs ! k = q} = {i}"
    using assms(1) i by (auto simp: nth_eq_iff_index_eq)
  moreover have "card {i. i < length xs \<and> xs ! ([0..<length xs] ! i) = q} =
      card {k. k < length xs \<and> xs ! k = q}"
    by (rule arg_cong [where f = card]) auto
  then have "length (filter (\<lambda>k. xs ! k = q) [0..<length xs]) =
      card {k. k < length xs \<and> xs ! k = q}"
    by (simp add: length_filter_conv_card)
  ultimately show ?thesis by simp
qed

lemma count_index_none:
  assumes "q \<notin> set xs"
  shows "filter (\<lambda>k. xs ! k = q) [0..<length xs] = []"
  using assms by (auto simp: filter_empty_conv)

lemma assigns_on_draw_iff:
  assumes "coordinates_ok (coordinates d)" and "Path (coordinates d) = Inr inside"
    and "k < length (filter inside points)"
  shows "assigns_on_draw Path points d q k \<longleftrightarrow> filter inside points ! k = q"
proof -
  have "sample_district (\<lambda>r n. (k, r)) Path points () d =
      (Inr (d\<lparr>randomLong := Some (fst (filter inside points ! k)),
               randomLat := Some (snd (filter inside points ! k))\<rparr>), ())"
    using assms by (intro sample_district_draw) simp_all
  moreover have "d\<lparr>randomLong := Some (fst a), randomLat := Some (snd a)\<rparr> =
      d\<lparr>randomLong := Some (fst q), randomLat := Some (snd q)\<rparr> \<longleftrightarrow> a = q" for a
  proof
    assume "d\<lparr>randomLong := Some (fst a), randomLat := Some (snd a)\<rparr> =
      d\<lparr>randomLong := Some (fst q), randomLat := Some (snd q)\<rparr>"
    then have "randomLong (d\<lparr>randomLong := Some (fst a), randomLat := Some (snd a)\<rparr>) =
        randomLong (d\<lparr>randomLong := Some (fst q), randomLat := Some (snd q)\<rparr>)"
      "randomLat (d\<lparr>randomLong := Some (fst a), randomLat := Some (snd a)\<rparr>) =
        randomLat (d\<lparr>randomLong := Some (fst q), randomLat := Some (snd q)\<rparr>)"
      by simp_all
    then show "a = q" by (simp add: prod_eq_iff)
  qed simp
  ultimately show ?thesis by (simp add: assigns_on_draw_def)
qed

lemma choice_probability_count:
  assumes "coordinates_ok (coordinates d)" and "Path (coordinates d) = Inr inside"
  shows "choice_probability Path points d q =
     real (length (filter (\<lambda>k. filter inside points ! k = q)
       [0..<length (filter inside points)])) / real (length (filter inside points))"
proof -
  have "filter (assigns_on_draw Path points d q) [0..<length (filter inside points)] =
      filter (\<lambda>k. filter inside points ! k = q) [0..<length (filter inside points)]"
    by (rule filter_cong)
      (simp_all add: assigns_on_draw_iff [where Path = Path and d = d and inside = inside
          and points = points, OF assms])
  with assms(2) show ?thesis
    by (simp add: choice_probability_def mask_select_contains_points Let_def)
qed

lemma choice_probability_uniform:
  assumes "coordinates_ok (coordinates d)" and "Path (coordinates d) = Inr inside"
    and "distinct points" and "q \<in> set points" and "inside q"
  shows "choice_probability Path points d q = 1 / real (length (filter inside points))"
proof -
  from assms(3) have "distinct (filter inside points)" by simp
  moreover from assms(4,5) have "q \<in> set (filter inside points)" by simp
  ultimately have "length (filter (\<lambda>k. filter inside points ! k = q)
       [0..<length (filter inside points)]) = 1"
    by (rule count_index)
  with choice_probability_count [where Path = Path and d = d and inside = inside
      and points = points and q = q, OF assms(1,2)]
  show ?thesis by simp
qed

lemma choice_probability_outside:
  assumes "coordinates_ok (coordinates d)" and "Path (coordinates d) = Inr inside"
    and "\<not> (q \<in> set points \<and> inside q)"
  shows "choice_probability Path points d q = 0"
proof -
  from assms(3) have "q \<notin> set (filter inside points)" by simp
  then have "filter (\<lambda>k. filter inside points ! k = q)
       [0..<length (filter inside points)] = []"
    by (rule count_index_none)
  with choice_probability_count [where Path = Path and d = d and inside = inside
      and points = points and q = q, OF assms(1,2)]
  show ?thesis by simp
qed

lemma example_fixture_agrees:
  "list_all (\<lambda>q. in_square q = point_in_path example_square q) example_points"
  by (simp add: example_points_def in_square_def point_in_square_values)

lemma generateRandPoint_points:
  assumes run: "generateRandPoint randbelow Path points (r, self) = (e, r', self')"
  shows "(\<forall>i < length (districts self).
         (randomLong (districts self' ! i), randomLat (districts self' ! i)) \<noteq>
           (randomLong (districts self ! i), randomLat (districts self ! i)) \<longrightarrow>
         (\<exists>q polygon_path.
            randomLong (districts self' ! i) = Some (fst q) \<and>
            randomLat (districts self' ! i) = Some (snd q) \<and> q \<in> set points \<and>
            Path (coordinates (districts self' ! i)) = Inr polygon_path \<and> polygon_path q)) \<and>
     ((\<forall>d \<in> set (districts self). point_ok Path points d) \<longrightarrow>
      (\<forall>d \<in> set (districts self'). point_ok Path points d))"
proof -
  from run obtain ds' where
    loop: "generateRandPoint_loop randbelow Path points r (districts self) = (e, r', ds')" and
    self': "self' = self\<lparr>districts := ds'\<rparr>"
    by (auto simp: generateRandPoint_unfold)
  let ?R = "\<lambda>d d'. d' = d \<or>
     (\<exists>q polygon_path. Path (coordinates d) = Inr polygon_path \<and> q \<in> set points \<and>
        polygon_path q \<and> d' = d\<lparr>randomLong := Some (fst q), randomLat := Some (snd q)\<rparr>)"
  from generateRandPoint_loop_point [OF loop] have rel: "list_all2 ?R (districts self) ds'" .
  then have len: "length ds' = length (districts self)"
    by (simp add: list_all2_lengthD)
  have each: "?R (districts self ! i) (ds' ! i)" if "i < length (districts self)" for i
    using rel that by (simp add: list_all2_conv_all_nth)
  have changed: "\<exists>q polygon_path.
            randomLong (ds' ! i) = Some (fst q) \<and> randomLat (ds' ! i) = Some (snd q) \<and>
            q \<in> set points \<and> Path (coordinates (ds' ! i)) = Inr polygon_path \<and> polygon_path q"
    if i: "i < length (districts self)"
      and ne: "(randomLong (ds' ! i), randomLat (ds' ! i)) \<noteq>
           (randomLong (districts self ! i), randomLat (districts self ! i))"
    for i
  proof -
    from each [OF i] ne obtain q polygon_path where
      "Path (coordinates (districts self ! i)) = Inr polygon_path" "q \<in> set points"
      "polygon_path q"
      "ds' ! i = (districts self ! i)\<lparr>randomLong := Some (fst q), randomLat := Some (snd q)\<rparr>"
      by auto
    then show ?thesis
      by (intro exI [of _ q] exI [of _ polygon_path]) simp
  qed
  have kept: "\<forall>d \<in> set ds'. point_ok Path points d"
    if inv: "\<forall>d \<in> set (districts self). point_ok Path points d"
  proof
    fix d'
    assume "d' \<in> set ds'"
    then obtain i where i: "i < length (districts self)" and d': "d' = ds' ! i"
      using len by (auto simp: in_set_conv_nth)
    from inv i have old: "point_ok Path points (districts self ! i)"
      by simp
    from each [OF i] consider "ds' ! i = districts self ! i"
      | q polygon_path where "Path (coordinates (districts self ! i)) = Inr polygon_path"
          "q \<in> set points" "polygon_path q"
          "ds' ! i = (districts self ! i)\<lparr>randomLong := Some (fst q),
             randomLat := Some (snd q)\<rparr>"
      by blast
    then show "point_ok Path points d'"
    proof cases
      case 1
      with old d' show ?thesis by simp
    next
      case 2
      from assigned_point_ok [where Path = Path and d = "districts self ! i"
          and polygon_path = polygon_path and q = q and points = points, OF 2(1-3)] 2(4) d'
      show ?thesis by simp
    qed
  qed
  from changed kept self' show ?thesis by simp
qed

text \<open>
  C2, as amended. Whatever way \<^verbatim>\<open>generateRandPoint\<close> ends: a district whose
  \<^verbatim>\<open>randomLong\<close> or \<^verbatim>\<open>randomLat\<close> differs from before has both set, to the
  coordinates of a point of the grid that passes the point test of the path built from
  the district's \<^verbatim>\<open>coordinates\<close>; and if every sampled point of the catalog was such
  a point before the call, every one is after it (a freshly loaded catalog has none).
  Passing the test is all the code asks for: the test decides what counts as inside,
  and it is not claimed that the point is off the boundary.
  The point is the one \<^verbatim>\<open>random.choice\<close> picks from the list of all grid points that
  pass the test, which is the grid filtered by the test: when the generator draws the
  index \<open>k\<close>, the district gets the \<open>k\<close>-th of them. The choice is uniform: on a
  grid without repeated points, with the index drawn uniformly, every grid point that
  passes the test is assigned with probability one over the number of such points,
  and any other point with probability zero.
  The later operations keep the property: \<^verbatim>\<open>fetchCensus\<close> and \<^verbatim>\<open>fetchIncome\<close>, in
  every outcome, leave \<^verbatim>\<open>coordinates\<close>, \<^verbatim>\<open>randomLat\<close> and \<^verbatim>\<open>randomLong\<close> of every
  district as they were, and \<^verbatim>\<open>createDistricts\<close> keeps the districts it finds and
  appends districts without a point.
\<close>

theorem sampled_point_inside:
  "(generateRandPoint randbelow Path points (r, self) = (e, r', self') \<longrightarrow>
      (\<forall>i < length (districts self).
         (randomLong (districts self' ! i), randomLat (districts self' ! i)) \<noteq>
           (randomLong (districts self ! i), randomLat (districts self ! i)) \<longrightarrow>
         (\<exists>q polygon_path.
            randomLong (districts self' ! i) = Some (fst q) \<and>
            randomLat (districts self' ! i) = Some (snd q) \<and> q \<in> set points \<and>
            Path (coordinates (districts self' ! i)) = Inr polygon_path \<and> polygon_path q)) \<and>
      ((\<forall>d \<in> set (districts self). point_ok Path points d) \<longrightarrow>
       (\<forall>d \<in> set (districts self'). point_ok Path points d))) \<and>
   mask_select points (contains_points inside points) = filter inside points \<and>
   (coordinates_ok (coordinates d) \<and> Path (coordinates d) = Inr inside \<and>
    randbelow r0 (length (filter inside points)) = (k, r1) \<and>
    k < length (filter inside points) \<longrightarrow>
      sample_district randbelow Path points r0 d =
        (Inr (d\<lparr>randomLong := Some (fst (filter inside points ! k)),
                 randomLat := Some (snd (filter inside points ! k))\<rparr>), r1)) \<and>
   (distinct points \<longrightarrow>
      bij_betw (\<lambda>k. filter inside points ! k) {..<length (filter inside points)}
        {q \<in> set points. inside q}) \<and>
   (coordinates_ok (coordinates d) \<and> Path (coordinates d) = Inr inside \<and>
    distinct points \<and> q \<in> set points \<and> inside q \<longrightarrow>
      choice_probability Path points d q = 1 / real (length (filter inside points))) \<and>
   (coordinates_ok (coordinates d) \<and> Path (coordinates d) = Inr inside \<and>
    \<not> (q' \<in> set points \<and> inside q') \<longrightarrow>
      choice_probability Path points d q' = 0) \<and>
   (fetchCensus fcc (sent, catalog) = (e2, sent', catalog2) \<longrightarrow>
      map coordinates (districts catalog2) = map coordinates (districts catalog) \<and>
      map randomLat (districts catalog2) = map randomLat (districts catalog) \<and>
      map randomLong (districts catalog2) = map randomLong (districts catalog) \<and>
      ((\<forall>d \<in> set (districts catalog). point_ok Path points d) \<longrightarrow>
       (\<forall>d \<in> set (districts catalog2). point_ok Path points d))) \<and>
   (fetchIncome py_int response (out, catalog) = (e3, out', catalog3) \<longrightarrow>
      map coordinates (districts catalog3) = map coordinates (districts catalog) \<and>
      map randomLat (districts catalog3) = map randomLat (districts catalog) \<and>
      map randomLong (districts catalog3) = map randomLong (districts catalog) \<and>
      ((\<forall>d \<in> set (districts catalog). point_ok Path points d) \<longrightarrow>
       (\<forall>d \<in> set (districts catalog3). point_ok Path points d))) \<and>
   (createDistricts fs json_load catalog fileName = (e4, catalog4) \<longrightarrow>
      take (length (districts catalog)) (districts catalog4) = districts catalog \<and>
      ((\<forall>d \<in> set (districts catalog). point_ok Path points d) \<longrightarrow>
       (\<forall>d \<in> set (districts catalog4). point_ok Path points d)))"
proof (intro conjI)
  show "generateRandPoint randbelow Path points (r, self) = (e, r', self') \<longrightarrow>
      (\<forall>i < length (districts self).
         (randomLong (districts self' ! i), randomLat (districts self' ! i)) \<noteq>
           (randomLong (districts self ! i), randomLat (districts self ! i)) \<longrightarrow>
         (\<exists>q polygon_path.
            randomLong (districts self' ! i) = Some (fst q) \<and>
            randomLat (districts self' ! i) = Some (snd q) \<and> q \<in> set points \<and>
            Path (coordinates (districts self' ! i)) = Inr polygon_path \<and> polygon_path q)) \<and>
      ((\<forall>d \<in> set (districts self). point_ok Path points d) \<longrightarrow>
       (\<forall>d \<in> set (districts self'). point_ok Path points d))"
    by (rule impI) (rule generateRandPoint_points)
next
  show "mask_select points (contains_points inside points) = filter inside points"
    by (rule mask_select_contains_points)
next
  show "coordinates_ok (coordinates d) \<and> Path (coordinates d) = Inr inside \<and>
    randbelow r0 (length (filter inside points)) = (k, r1) \<and>
    k < length (filter inside points) \<longrightarrow>
      sample_district randbelow Path points r0 d =
        (Inr (d\<lparr>randomLong := Some (fst (filter inside points ! k)),
                 randomLat := Some (snd (filter inside points ! k))\<rparr>), r1)"
    by (auto intro: sample_district_draw)
next
  show "distinct points \<longrightarrow>
      bij_betw (\<lambda>k. filter inside points ! k) {..<length (filter inside points)}
        {q \<in> set points. inside q}"
    by (rule impI) (rule inside_points_bij)
next
  show "coordinates_ok (coordinates d) \<and> Path (coordinates d) = Inr inside \<and>
    distinct points \<and> q \<in> set points \<and> inside q \<longrightarrow>
      choice_probability Path points d q = 1 / real (length (filter inside points))"
    by (auto intro: choice_probability_uniform)
next
  show "coordinates_ok (coordinates d) \<and> Path (coordinates d) = Inr inside \<and>
    \<not> (q' \<in> set points \<and> inside q') \<longrightarrow>
      choice_probability Path points d q' = 0"
  proof
    assume "coordinates_ok (coordinates d) \<and> Path (coordinates d) = Inr inside \<and>
      \<not> (q' \<in> set points \<and> inside q')"
    then have ok: "coordinates_ok (coordinates d)" and path: "Path (coordinates d) = Inr inside"
      and out: "\<not> (q' \<in> set points \<and> inside q')"
      by blast+
    from choice_probability_outside [where Path = Path and d = d and inside = inside
        and points = points and q = q', OF ok path out]
    show "choice_probability Path points d q' = 0" .
  qed
next
  show "fetchCensus fcc (sent, catalog) = (e2, sent', catalog2) \<longrightarrow>
      map coordinates (districts catalog2) = map coordinates (districts catalog) \<and>
      map randomLat (districts catalog2) = map randomLat (districts catalog) \<and>
      map randomLong (districts catalog2) = map randomLong (districts catalog) \<and>
      ((\<forall>d \<in> set (districts catalog). point_ok Path points d) \<longrightarrow>
       (\<forall>d \<in> set (districts catalog2). point_ok Path points d))"
  proof
    assume "fetchCensus fcc (sent, catalog) = (e2, sent', catalog2)"
    from fetchCensus_keeps_points [OF this]
    show "map coordinates (districts catalog2) = map coordinates (districts catalog) \<and>
      map randomLat (districts catalog2) = map randomLat (districts catalog) \<and>
      map randomLong (districts catalog2) = map randomLong (districts catalog) \<and>
      ((\<forall>d \<in> set (districts catalog). point_ok Path points d) \<longrightarrow>
       (\<forall>d \<in> set (districts catalog2). point_ok Path points d))"
      by (auto intro: point_ok_maps [rule_format])
  qed
next
  show "fetchIncome py_int response (out, catalog) = (e3, out', catalog3) \<longrightarrow>
      map coordinates (districts catalog3) = map coordinates (districts catalog) \<and>
      map randomLat (districts catalog3) = map randomLat (districts catalog) \<and>
      map randomLong (districts catalog3) = map randomLong (districts catalog) \<and>
      ((\<forall>d \<in> set (districts catalog). point_ok Path points d) \<longrightarrow>
       (\<forall>d \<in> set (districts catalog3). point_ok Path points d))"
  proof
    assume "fetchIncome py_int response (out, catalog) = (e3, out', catalog3)"
    from fetchIncome_keeps_points [OF this]
    show "map coordinates (districts catalog3) = map coordinates (districts catalog) \<and>
      map randomLat (districts catalog3) = map randomLat (districts catalog) \<and>
      map randomLong (districts catalog3) = map randomLong (districts catalog) \<and>
      ((\<forall>d \<in> set (districts catalog). point_ok Path points d) \<longrightarrow>
       (\<forall>d \<in> set (districts catalog3). point_ok Path points d))"
      by (auto intro: point_ok_maps [rule_format])
  qed
next
  show "createDistricts fs json_load catalog fileName = (e4, catalog4) \<longrightarrow>
      take (length (districts catalog)) (districts catalog4) = districts catalog \<and>
      ((\<forall>d \<in> set (districts catalog). point_ok Path points d) \<longrightarrow>
       (\<forall>d \<in> set (districts catalog4). point_ok Path points d))"
  proof
    assume "createDistricts fs json_load catalog fileName = (e4, catalog4)"
    from createDistricts_extends [OF this] obtain new where
      ext: "districts catalog4 = districts catalog @ new" and
      fresh: "\<forall>d \<in> set new. randomLat d = None \<and> randomLong d = None"
      by blast
    from fresh have "\<forall>d \<in> set new. point_ok Path points d"
      by (simp add: point_ok_unset)
    with ext
    show "take (length (districts catalog)) (districts catalog4) = districts catalog \<and>
      ((\<forall>d \<in> set (districts catalog). point_ok Path points d) \<longrightarrow>
       (\<forall>d \<in> set (districts catalog4). point_ok Path points d))"
      by auto
  qed
qed

lemma example_run_sampled:
  "generateRandPoint example_randbelow example_Path example_points (17, example_catalog) =
     (None, 18, example_catalog_sampled)"
  using example_run
  by (simp add: example_catalog_sampled_def example_sampled_def example_district_far_def)

lemma example_fetchCensus_run:
  "fetchCensus example_fcc ([], example_catalog_sampled) =
     (None, [(3 / 2, 1 / 2)], example_catalog_sampled)"
  by (simp add: fetchCensus_def fetchCensus_body_def example_fcc_def example_sampled_def
      example_district_def example_catalog_sampled_def example_district_far_def)

lemma example_fetchIncome_run:
  "fetchIncome example_py_int example_acs_down ([], example_catalog_sampled) =
     (None, [Failed 500 ''Internal Server Error''], example_catalog_sampled)"
  by (simp add: fetchIncome_def example_acs_down_def)

lemma example_createDistricts_run:
  "createDistricts example_fs (example_json_load example_data) example_catalog_sampled
     ''absent.json'' = (Some FileNotFoundError, example_catalog_sampled)"
  by (rule createDistricts_absent) (simp add: example_fs_def)

theorem sampled_point_inside_witness:
  "generateRandPoint example_randbelow example_Path example_points (17, example_catalog) =
     (None, 18, example_catalog_sampled) \<and>
   randomLong (districts example_catalog ! 0) = None \<and>
   randomLong (districts example_catalog_sampled ! 0) = Some (1 / 2) \<and>
   randomLat (districts example_catalog_sampled ! 0) = Some (3 / 2) \<and>
   (\<exists>q polygon_path.
      randomLong (districts example_catalog_sampled ! 0) = Some (fst q) \<and>
      randomLat (districts example_catalog_sampled ! 0) = Some (snd q) \<and>
      q \<in> set example_points \<and>
      example_Path (coordinates (districts example_catalog_sampled ! 0)) = Inr polygon_path \<and>
      polygon_path q) \<and>
   list_all (point_ok example_Path example_points) (districts example_catalog) \<and>
   list_all (point_ok example_Path example_points) (districts example_catalog_sampled) \<and>
   coordinates_ok (coordinates (example_district ''A'' ''A1'' ''darkgreen'')) \<and>
   example_Path (coordinates (example_district ''A'' ''A1'' ''darkgreen'')) = Inr in_square \<and>
   example_randbelow 17 (length (filter in_square example_points)) = (1, 18) \<and>
   sample_district example_randbelow example_Path example_points 17
     (example_district ''A'' ''A1'' ''darkgreen'') = (Inr example_sampled, 18) \<and>
   distinct example_points \<and>
   bij_betw (\<lambda>k. filter in_square example_points ! k) {..<2} {(1, 1), (1 / 2, 3 / 2)} \<and>
   (1 / 2, 3 / 2) \<in> set example_points \<and> in_square (1 / 2, 3 / 2) \<and>
   choice_probability example_Path example_points
     (example_district ''A'' ''A1'' ''darkgreen'') (1 / 2, 3 / 2) = 1 / 2 \<and>
   (3, 3) \<in> set example_points \<and>
   choice_probability example_Path example_points
     (example_district ''A'' ''A1'' ''darkgreen'') (3, 3) = 0 \<and>
   list_all (\<lambda>q. in_square q = point_in_path example_square q) example_points \<and>
   fetchCensus example_fcc ([], example_catalog_sampled) =
     (None, [(3 / 2, 1 / 2)], example_catalog_sampled) \<and>
   fetchIncome example_py_int example_acs_down ([], example_catalog_sampled) =
     (None, [Failed 500 ''Internal Server Error''], example_catalog_sampled) \<and>
   createDistricts example_fs (example_json_load example_data) example_catalog_sampled
     ''absent.json'' = (Some FileNotFoundError, example_catalog_sampled)"
proof -
  note inst = sampled_point_inside [where randbelow = example_randbelow
      and Path = example_Path and points = example_points and r = 17
      and self = example_catalog and e = None and r' = 18 and self' = example_catalog_sampled
      and inside = in_square and d = "example_district ''A'' ''A1'' ''darkgreen''"
      and ?r0.0 = 17 and k = 1 and ?r1.0 = 18 and q = "(1 / 2, 3 / 2)" and q' = "(3, 3)"
      and fcc = example_fcc and sent = "[]" and catalog = example_catalog_sampled
      and ?e2.0 = None and sent' = "[(3 / 2, 1 / 2)]" and ?catalog2.0 = example_catalog_sampled
      and py_int = example_py_int and response = example_acs_down and out = "[]"
      and ?e3.0 = None and out' = "[Failed 500 ''Internal Server Error'']"
      and ?catalog3.0 = example_catalog_sampled
      and fs = example_fs and json_load = "example_json_load example_data"
      and fileName = "''absent.json''" and ?e4.0 = "Some FileNotFoundError"
      and ?catalog4.0 = example_catalog_sampled]
  note sampler = inst [THEN conjunct1, THEN mp, OF example_run_sampled]
  note choice = inst [THEN conjunct2, THEN conjunct2, THEN conjunct1, THEN mp]
  note uniform = inst [THEN conjunct2, THEN conjunct2, THEN conjunct2, THEN conjunct1, THEN mp]
  note share = inst [THEN conjunct2, THEN conjunct2, THEN conjunct2, THEN conjunct2,
      THEN conjunct1, THEN mp]
  note none = inst [THEN conjunct2, THEN conjunct2, THEN conjunct2, THEN conjunct2,
      THEN conjunct2, THEN conjunct1, THEN mp]
  have before: "randomLong (districts example_catalog ! 0) = None"
    by (simp add: example_catalog_def example_district_def)
  have after: "randomLong (districts example_catalog_sampled ! 0) = Some (1 / 2)"
    "randomLat (districts example_catalog_sampled ! 0) = Some (3 / 2)"
    by (simp_all add: example_catalog_sampled_def example_sampled_def)
  have len: "0 < length (districts example_catalog)"
    by (simp add: example_catalog_def)
  have ne: "(randomLong (districts example_catalog_sampled ! 0),
      randomLat (districts example_catalog_sampled ! 0)) \<noteq>
     (randomLong (districts example_catalog ! 0), randomLat (districts example_catalog ! 0))"
    by (simp add: before after)
  have fresh: "\<forall>d \<in> set (districts example_catalog). point_ok example_Path example_points d"
    by (simp add: example_catalog_def example_district_def point_ok_def)
  from sampler [THEN conjunct1, rule_format, OF len ne]
  have changed: "\<exists>q polygon_path.
      randomLong (districts example_catalog_sampled ! 0) = Some (fst q) \<and>
      randomLat (districts example_catalog_sampled ! 0) = Some (snd q) \<and>
      q \<in> set example_points \<and>
      example_Path (coordinates (districts example_catalog_sampled ! 0)) = Inr polygon_path \<and>
      polygon_path q" .
  from sampler [THEN conjunct2, THEN mp, OF fresh]
  have kept: "\<forall>d \<in> set (districts example_catalog_sampled).
      point_ok example_Path example_points d" .
  have ok: "coordinates_ok (coordinates (example_district ''A'' ''A1'' ''darkgreen''))"
    by (simp add: example_district_def coordinates_ok_example_ring)
  have path: "example_Path (coordinates (example_district ''A'' ''A1'' ''darkgreen'')) =
      Inr in_square"
    by (simp add: example_district_def example_Path_def)
  have two: "length (filter in_square example_points) = 2"
    by (simp add: example_valid_points)
  then have draw: "example_randbelow 17 (length (filter in_square example_points)) = (1, 18)"
    by (simp add: example_randbelow_def)
  from two have below: "1 < length (filter in_square example_points)"
    by simp
  from choice [OF conjI [OF ok conjI [OF path conjI [OF draw below]]]]
  have chosen: "sample_district example_randbelow example_Path example_points 17
     (example_district ''A'' ''A1'' ''darkgreen'') = (Inr example_sampled, 18)"
    by (simp add: example_valid_points example_sampled_def)
  have dist: "distinct example_points"
    by (simp add: example_points_def)
  have inside_set: "{q \<in> set example_points. in_square q} = {(1, 1), (1 / 2, 3 / 2)}"
    by (auto simp: example_points_def in_square_def)
  from uniform [OF dist]
  have bij: "bij_betw (\<lambda>k. filter in_square example_points ! k) {..<2}
      {(1, 1), (1 / 2, 3 / 2)}"
    by (simp only: two inside_set)
  have member: "(1 / 2, 3 / 2) \<in> set example_points"
    by (simp add: example_points_def)
  have inside: "in_square (1 / 2, 3 / 2)"
    by (simp add: in_square_def)
  from share [OF conjI [OF ok conjI [OF path conjI [OF dist conjI [OF member inside]]]]] two
  have half: "choice_probability example_Path example_points
     (example_district ''A'' ''A1'' ''darkgreen'') (1 / 2, 3 / 2) = 1 / 2"
    by simp
  have far: "(3, 3) \<in> set example_points"
    by (simp add: example_points_def)
  have outside: "\<not> ((3, 3) \<in> set example_points \<and> in_square (3, 3))"
    by (simp add: in_square_def)
  from none [OF conjI [OF ok conjI [OF path outside]]]
  have zero: "choice_probability example_Path example_points
     (example_district ''A'' ''A1'' ''darkgreen'') (3, 3) = 0" .
  have all_fresh: "list_all (point_ok example_Path example_points) (districts example_catalog)"
    using fresh by (simp only: list_all_iff)
  have all_kept: "list_all (point_ok example_Path example_points)
      (districts example_catalog_sampled)"
    using kept by (simp only: list_all_iff)
  show ?thesis
    by (intro conjI example_run_sampled before after changed all_fresh all_kept ok path draw
        chosen dist bij member inside half far zero example_fixture_agrees
        example_fetchCensus_run example_fetchIncome_run example_createDistricts_run)
qed

section \<open>A sampled point on the boundary\<close>

text \<open>
  C2 as first stated asks that the sampled point lie strictly inside the boundary of
  the district. The code asks only that the point pass the test of the library, and
  that test accepts points of the boundary. With the crossings test for \<open>Path\<close>, the
  square ring for the district and a grid of the midpoints of its edges and a point far
  away, the sampler gives the district the point \<open>(0, 1)\<close> of its left edge: the
  point passes the test and lies on the boundary, as does every point of this grid
  that passes the test.
\<close>

theorem sampled_point_on_boundary:
  "generateRandPoint example_randbelow crossings_Path example_edge_points
     (17, \<lparr>districts = [example_district ''A'' ''A1'' ''darkgreen'']\<rparr>) =
   (None, 18,
    \<lparr>districts = [(example_district ''A'' ''A1'' ''darkgreen'')
       \<lparr>randomLong := Some 0, randomLat := Some 1\<rparr>]\<rparr>) \<and>
   crossings_Path (coordinates (example_district ''A'' ''A1'' ''darkgreen'')) =
     Inr (point_in_path example_square) \<and>
   point_in_path example_square (0, 1) \<and>
   on_boundary example_square (0, 1) \<and>
   list_all (\<lambda>q. on_boundary example_square q \<or> \<not> point_in_path example_square q)
     example_edge_points"
  by (simp add: generateRandPoint_def example_edge_sample point_in_square_values
      on_boundary_example example_edge_points_boundary)
    (simp add: example_district_def crossings_Path_example_ring)

end
